theory Spec2Isabelle
  imports Complex_Main "HOL-Library.Multiset"
begin

section \<open>Errors\<close>

text \<open>
  The fatal outcomes of the modelled code: a failed \<^verbatim>\<open>assert\<close>, a dictionary lookup of
  a missing key, an index outside an array, an integer division by zero, and an array the
  array library cannot stack or reshape as asked (\<open>ShapeMismatch\<close>, whatever exception
  class the library raises for it).
\<close>

datatype error = AssertionError | KeyError | IndexError | ZeroDivisionError | ShapeMismatch

definition bind_result :: "error + 'a \<Rightarrow> ('a \<Rightarrow> error + 'b) \<Rightarrow> error + 'b" where
  "bind_result r f = (case r of Inl e \<Rightarrow> Inl e | Inr x \<Rightarrow> f x)"

section \<open>Configuration\<close>

text \<open>
  The hyperparameters of the training run (the \<^verbatim>\<open>config\<close> dictionary of the notebook).
  The last three fields are the entries \<^verbatim>\<open>make_train\<close> adds to the dictionary before the
  training function is built. Python integers are modelled as \<^typ>\<open>int\<close>, Python floats
  and the entries of arrays as exact reals; the rounding of the array library's 32-bit
  arithmetic is written out for the Advantage Estimator in a section of its own.
  \<^verbatim>\<open>TOTAL_TIMESTEPS\<close>, a float with a whole value in the notebook, is an integer here.
\<close>

record config =
  NUM_ENVS :: int
  NUM_STEPS :: int
  TOTAL_TIMESTEPS :: int
  UPDATE_EPOCHS :: int
  NUM_MINIBATCHES :: int
  GAMMA :: real
  GAE_LAMBDA :: real
  CLIP_EPS :: real
  ENT_COEF :: real
  VF_COEF :: real
  NUM_ACTORS :: int
  NUM_UPDATES :: int
  MINIBATCH_SIZE :: int

text \<open>
  The first lines of \<^verbatim>\<open>make_train\<close>: the derived sizes, in the order the source computes
  them. \<^verbatim>\<open>//\<close> is floor division and raises on a zero divisor. \<open>num_agents\<close> is
  \<^verbatim>\<open>env.num_agents\<close> of the environment the configuration names.
\<close>

definition make_train :: "config \<Rightarrow> int \<Rightarrow> error + config" where
  "make_train cfg num_agents =
     (let cfg = cfg\<lparr>NUM_ACTORS := num_agents * NUM_ENVS cfg\<rparr>
      in if NUM_STEPS cfg = 0 \<or> NUM_ENVS cfg = 0 then Inl ZeroDivisionError
         else
           let cfg = cfg\<lparr>NUM_UPDATES := TOTAL_TIMESTEPS cfg div NUM_STEPS cfg div NUM_ENVS cfg\<rparr>
           in if NUM_MINIBATCHES cfg = 0 then Inl ZeroDivisionError
              else Inr (cfg\<lparr>MINIBATCH_SIZE :=
                     NUM_ACTORS cfg * NUM_STEPS cfg div NUM_MINIBATCHES cfg\<rparr>))"

section \<open>Transitions\<close>

text \<open>
  \<^verbatim>\<open>class Transition(NamedTuple)\<close>: one entry per (time step, actor slot). The source keeps
  a named tuple of arrays that share their leading axes; the model keeps an array of
  named tuples, so \<^verbatim>\<open>traj_batch.value\<close> is \<open>map value' traj_batch\<close>. The fields
  \<^verbatim>\<open>done\<close> and \<^verbatim>\<open>value\<close> carry a prime because their names are reserved words here.
\<close>

record ('obs, 'info) Transition =
  done' :: bool
  action :: nat
  value' :: real
  reward :: real
  log_prob :: real
  obs :: 'obs
  info :: 'info

section \<open>Scans\<close>

text \<open>
  \<^verbatim>\<open>jax.lax.scan(f, init, xs)\<close>: thread a carry through the slices of \<open>xs\<close> along the
  leading axis, first to last, and stack the per-slice outputs in the order of \<open>xs\<close>.
  With \<^verbatim>\<open>reverse=True\<close> the slices are visited last to first, and the outputs are still
  stacked in the order of \<open>xs\<close>. (\<^verbatim>\<open>unroll\<close> changes the compiled loop only.)
\<close>

fun scan :: "('c \<Rightarrow> 'x \<Rightarrow> 'c \<times> 'y) \<Rightarrow> 'c \<Rightarrow> 'x list \<Rightarrow> 'c \<times> 'y list" where
  "scan f init [] = (init, [])"
| "scan f init (x # xs) =
     (let (carry, y) = f init x;
          (final, ys) = scan f carry xs
      in (final, y # ys))"

definition scan_reverse :: "('c \<Rightarrow> 'x \<Rightarrow> 'c \<times> 'y) \<Rightarrow> 'c \<Rightarrow> 'x list \<Rightarrow> 'c \<times> 'y list" where
  "scan_reverse f init xs = (let (final, ys) = scan f init (rev xs) in (final, rev ys))"

section \<open>Batch Adapter\<close>

text \<open>
  An array of the array library: its shape and its entries in row-major order. A
  well-formed array has as many entries as the product of its shape.
\<close>

datatype 'a ndarray = Array (shape: "nat list") (data: "'a list")

text \<open>
  \<^verbatim>\<open>jnp.stack(arrays)\<close>: at least one array, all of one shape; the result has a new
  leading axis. \<open>reshape_infer dims x\<close> is \<^verbatim>\<open>x.reshape(dims + (-1,))\<close>: the last
  dimension is inferred, which the library refuses when the given dimensions multiply to
  zero or do not divide the size. \<open>getitem x i\<close> is \<^verbatim>\<open>x[i]\<close> for a constant index
  \<open>i \<ge> 0\<close>: the \<open>i\<close>-th slice along the leading axis. The library clamps an index
  beyond the last slice to the last slice, and refuses to index an array without axes or
  with an empty leading axis.
\<close>

definition jnp_stack :: "'a ndarray list \<Rightarrow> error + 'a ndarray" where
  "jnp_stack arrays =
     (case arrays of
        [] \<Rightarrow> Inl ShapeMismatch
      | a # rest \<Rightarrow>
          if list_all (\<lambda>b. shape b = shape a) rest
          then Inr (Array (length arrays # shape a) (concat (map data arrays)))
          else Inl ShapeMismatch)"

definition reshape_infer :: "nat list \<Rightarrow> 'a ndarray \<Rightarrow> error + 'a ndarray" where
  "reshape_infer dims x =
     (let known = prod_list dims; total = prod_list (shape x)
      in if known = 0 \<or> total mod known \<noteq> 0 then Inl ShapeMismatch
         else Inr (Array (dims @ [total div known]) (data x)))"

definition getitem :: "'a ndarray \<Rightarrow> nat \<Rightarrow> error + 'a ndarray" where
  "getitem x i =
     (case shape x of
        [] \<Rightarrow> Inl IndexError
      | n # rest \<Rightarrow>
          if n = 0 then Inl IndexError
          else
            let j = min i (n - 1)
            in Inr (Array rest (take (prod_list rest) (drop (j * prod_list rest) (data x)))))"

text \<open>
  The list comprehension \<^verbatim>\<open>[x[a] for a in agent_list]\<close> over a dictionary: the lookups
  in the order of the list; a missing key raises \<^verbatim>\<open>KeyError\<close>.
\<close>

fun lookup_all :: "('k \<rightharpoonup> 'v) \<Rightarrow> 'k list \<Rightarrow> error + 'v list" where
  "lookup_all x [] = Inr []"
| "lookup_all x (a # as) =
     (case x a of
        None \<Rightarrow> Inl KeyError
      | Some v \<Rightarrow> bind_result (lookup_all x as) (\<lambda>vs. Inr (v # vs)))"

text \<open>\<^verbatim>\<open>batchify(x, agent_list, num_actors)\<close>.\<close>

definition batchify :: "(string \<rightharpoonup> 'a ndarray) \<Rightarrow> string list \<Rightarrow> nat \<Rightarrow> error + 'a ndarray" where
  "batchify x agent_list num_actors =
     bind_result (lookup_all x agent_list) (\<lambda>arrays.
     bind_result (jnp_stack arrays) (\<lambda>x.
       reshape_infer [num_actors] x))"

text \<open>
  The dictionary comprehension \<^verbatim>\<open>{a: x[i] for i, a in enumerate(agent_list)}\<close>: the
  entries are stored in the order of the list, a later entry replacing an earlier one
  of the same key.
\<close>

fun dict_comprehension ::
  "'a ndarray \<Rightarrow> (nat \<times> string) list \<Rightarrow> (string \<rightharpoonup> 'a ndarray)
     \<Rightarrow> error + (string \<rightharpoonup> 'a ndarray)" where
  "dict_comprehension x [] d = Inr d"
| "dict_comprehension x ((i, a) # rest) d =
     bind_result (getitem x i) (\<lambda>v. dict_comprehension x rest (d(a \<mapsto> v)))"

text \<open>
  \<^verbatim>\<open>unbatchify(x, agent_list, num_envs, num_actors)\<close>. The last parameter is the number
  of agents at every call of the source, whatever its name.
\<close>

definition unbatchify ::
  "'a ndarray \<Rightarrow> string list \<Rightarrow> nat \<Rightarrow> nat \<Rightarrow> error + (string \<rightharpoonup> 'a ndarray)" where
  "unbatchify x agent_list num_envs num_actors =
     bind_result (reshape_infer [num_actors, num_envs] x) (\<lambda>x.
       dict_comprehension x (enumerate 0 agent_list) Map.empty)"

section \<open>Advantage Estimator\<close>

text \<open>
  \<^verbatim>\<open>_get_advantages\<close> and \<^verbatim>\<open>_calculate_gae\<close> (inner functions of \<^verbatim>\<open>_update_step\<close>).
  Every operation of the scan body is elementwise over the actor axis, so the estimator
  is modelled for one actor slot: a trajectory is the list of that slot's transitions in
  time order and \<open>last_val\<close> the bootstrap value of the slot. The boolean \<^verbatim>\<open>done\<close> enters
  the arithmetic as 0 or 1.
\<close>

definition get_advantages ::
  "config \<Rightarrow> real \<times> real \<Rightarrow> ('obs, 'info) Transition \<Rightarrow> (real \<times> real) \<times> real" where
  "get_advantages cfg gae_and_next_value transition =
     (let (gae, next_value) = gae_and_next_value;
          (dn, val, rew) = (done' transition, value' transition, reward transition);
          delta = rew + GAMMA cfg * next_value * (1 - of_bool dn) - val;
          gae = delta + GAMMA cfg * GAE_LAMBDA cfg * (1 - of_bool dn) * gae
      in ((gae, val), gae))"

definition calculate_gae ::
  "config \<Rightarrow> ('obs, 'info) Transition list \<Rightarrow> real \<Rightarrow> real list \<times> real list" where
  "calculate_gae cfg traj_batch last_val =
     (let (final, advantages) = scan_reverse (get_advantages cfg) (0, last_val) traj_batch
      in (advantages, map2 (+) advantages (map value' traj_batch)))"

text \<open>
  The quantities the recursion of the estimator is stated with: the value that follows
  step \<open>t\<close> (the bootstrap estimate after the last step) and the advantage that follows
  step \<open>t\<close> (zero after the last step).
\<close>

definition next_value_at :: "('obs, 'info) Transition list \<Rightarrow> real \<Rightarrow> nat \<Rightarrow> real" where
  "next_value_at traj_batch last_val t =
     (if Suc t < length traj_batch then value' (traj_batch ! Suc t) else last_val)"

definition next_advantage_at :: "real list \<Rightarrow> nat \<Rightarrow> real" where
  "next_advantage_at advantages t =
     (if Suc t < length advantages then advantages ! Suc t else 0)"

definition delta_at :: "config \<Rightarrow> ('obs, 'info) Transition list \<Rightarrow> real \<Rightarrow> nat \<Rightarrow> real" where
  "delta_at cfg traj_batch last_val t =
     reward (traj_batch ! t)
       + GAMMA cfg * next_value_at traj_batch last_val t * (1 - of_bool (done' (traj_batch ! t)))
       - value' (traj_batch ! t)"

section \<open>Advantage Estimator in floating-point arithmetic\<close>

text \<open>
  The arrays of the training loop hold 32-bit floating-point numbers and the entries of
  the configuration are Python floats (64 bits). \<open>round_float p emin emax\<close> rounds a real
  number to the nearest number of the binary format with \<open>p\<close> significant bits and
  exponents from \<open>- emin\<close> to \<open>emax\<close>, ties to the even neighbour: \<open>binade\<close> finds the
  exponent of the number (not below \<open>- emin\<close>, so that the numbers under the smallest
  normal one are rounded with the spacing of the lowest binade, as subnormal numbers
  are), and the number is rounded to a multiple of the spacing of that binade. A result
  beyond the largest finite number of the format, which the format turns into an
  infinity, is not modelled.
\<close>

definition round_half_even :: "real \<Rightarrow> int" where
  "round_half_even x =
     (let f = \<lfloor>x\<rfloor>; r = x - of_int f
      in if r < 1 / 2 then f else if 1 / 2 < r then f + 1 else if even f then f else f + 1)"

fun scale_down :: "nat \<Rightarrow> real \<Rightarrow> int \<Rightarrow> int" where
  "scale_down 0 x e = e"
| "scale_down (Suc n) x e = (if 2 \<le> x then scale_down n (x / 2) (e + 1) else e)"

fun scale_up :: "nat \<Rightarrow> real \<Rightarrow> int \<Rightarrow> int" where
  "scale_up 0 x e = e"
| "scale_up (Suc n) x e = (if x < 1 then scale_up n (x * 2) (e - 1) else e)"

definition binade :: "nat \<Rightarrow> nat \<Rightarrow> real \<Rightarrow> int" where
  "binade emin emax x =
     (if 1 \<le> \<bar>x\<bar> then scale_down emax \<bar>x\<bar> 0 else scale_up emin \<bar>x\<bar> 0)"

definition round_float :: "nat \<Rightarrow> nat \<Rightarrow> nat \<Rightarrow> real \<Rightarrow> real" where
  "round_float p emin emax x =
     (let q = 2 powi (binade emin emax x - (int p - 1))
      in of_int (round_half_even (x / q)) * q)"

definition float64 :: "real \<Rightarrow> real" where
  "float64 = round_float 53 1022 1023"

definition float32 :: "real \<Rightarrow> real" where
  "float32 = round_float 24 126 127"

text \<open>
  \<^verbatim>\<open>_get_advantages\<close> and \<^verbatim>\<open>_calculate_gae\<close> again, for one actor slot, with the rounding
  of every operation written out. The fields of a transition and the carry are 32-bit
  numbers. \<^verbatim>\<open>config["GAMMA"]\<close> is a 64-bit number that the array library converts to 32
  bits where it meets an array; \<^verbatim>\<open>config["GAMMA"] * config["GAE_LAMBDA"]\<close> is a product of
  two Python floats, rounded to 64 bits before it is converted. \<^verbatim>\<open>1 - done\<close> is the
  integer 0 or 1, so the products with it are exact. The one product that is rounded
  and then added is that of the weight and the carried advantage: the array library
  rounds it and then the sum, while the compiler behind \<^verbatim>\<open>jax.jit\<close> may contract the
  two operations into one that is rounded once. \<open>contract\<close> says which of the two
  happens.
\<close>

definition get_advantages_f32 ::
  "bool \<Rightarrow> config \<Rightarrow> real \<times> real \<Rightarrow> ('obs, 'info) Transition \<Rightarrow> (real \<times> real) \<times> real" where
  "get_advantages_f32 contract cfg gae_and_next_value transition =
     (let (gae, next_value) = gae_and_next_value;
          (dn, val, rew) = (done' transition, value' transition, reward transition);
          gamma = float32 (float64 (GAMMA cfg));
          gamma_lambda = float32 (float64 (float64 (GAMMA cfg) * float64 (GAE_LAMBDA cfg)));
          not_done = 1 - of_bool dn;
          delta = float32 (float32 (rew + float32 (float32 (gamma * next_value) * not_done)) - val);
          weight = float32 (gamma_lambda * not_done);
          gae = (if contract then float32 (delta + weight * gae)
                 else float32 (delta + float32 (weight * gae)))
      in ((gae, val), gae))"

definition calculate_gae_f32 ::
  "bool \<Rightarrow> config \<Rightarrow> ('obs, 'info) Transition list \<Rightarrow> real \<Rightarrow> real list \<times> real list" where
  "calculate_gae_f32 contract cfg traj_batch last_val =
     (let (final, advantages) =
            scan_reverse (get_advantages_f32 contract cfg) (0, last_val) traj_batch
      in (advantages, map2 (\<lambda>a v. float32 (a + v)) advantages (map value' traj_batch)))"

section \<open>Loss function\<close>

text \<open>
  \<^verbatim>\<open>jnp.clip(x, lo, hi)\<close> and the array method \<^verbatim>\<open>x.clip(lo, hi)\<close>: the maximum with the
  lower bound, then the minimum with the upper bound. \<^verbatim>\<open>mean\<close> and \<^verbatim>\<open>std\<close> are the array
  methods over a whole minibatch (\<^verbatim>\<open>std\<close> with its default, the population deviation).
  The mean of an empty array, not a number in the library, is 0 here; a minibatch of a
  successful epoch with a non-empty batch is not empty.
\<close>

definition jnp_clip :: "real \<Rightarrow> real \<Rightarrow> real \<Rightarrow> real" where
  "jnp_clip x lo hi = min (max x lo) hi"

definition mean :: "real list \<Rightarrow> real" where
  "mean xs = sum_list xs / real (length xs)"

definition std :: "real list \<Rightarrow> real" where
  "std xs = sqrt (mean (map (\<lambda>x. (x - mean xs)\<^sup>2) xs))"

text \<open>
  The policy/value network is a collaborator. \<^verbatim>\<open>network.apply(params, obs)\<close> returns a
  distribution \<^verbatim>\<open>pi\<close> and a value; of \<^verbatim>\<open>pi\<close> the loss uses \<^verbatim>\<open>pi.log_prob(action)\<close> and
  \<^verbatim>\<open>pi.entropy()\<close>. The network acts on each row of an observation batch on its own.
\<close>

record ('p, 'obs) network =
  net_value :: "'p \<Rightarrow> 'obs \<Rightarrow> real"
  net_log_prob :: "'p \<Rightarrow> 'obs \<Rightarrow> nat \<Rightarrow> real"
  net_entropy :: "'p \<Rightarrow> 'obs \<Rightarrow> real"

text \<open>
  \<^verbatim>\<open>_loss_fn\<close>. Its array expressions are elementwise over the minibatch; the model writes
  the body of each for one element (\<open>value_loss_term\<close> for the lines under
  \<^verbatim>\<open>CALCULATE VALUE LOSS\<close> up to the maximum, \<open>actor_loss_term\<close> for \<^verbatim>\<open>loss_actor1\<close>,
  \<^verbatim>\<open>loss_actor2\<close> and the negated minimum) and maps it over the minibatch. The arrays of
  one minibatch have the same length.
\<close>

definition value_loss_term :: "real \<Rightarrow> real \<Rightarrow> real \<Rightarrow> real \<Rightarrow> real" where
  "value_loss_term eps old_value val target =
     (let value_pred_clipped = old_value + jnp_clip (val - old_value) (- eps) eps;
          value_losses = (val - target)\<^sup>2;
          value_losses_clipped = (value_pred_clipped - target)\<^sup>2
      in max value_losses value_losses_clipped)"

definition actor_loss_term :: "real \<Rightarrow> real \<Rightarrow> real \<Rightarrow> real" where
  "actor_loss_term eps ratio gae =
     (let loss_actor1 = ratio * gae;
          loss_actor2 = jnp_clip ratio (1 - eps) (1 + eps) * gae
      in - min loss_actor1 loss_actor2)"

definition normalize_advantages :: "real list \<Rightarrow> real list" where
  "normalize_advantages gae = map (\<lambda>g. (g - mean gae) / (std gae + 1 / 10 ^ 8)) gae"

definition loss_fn ::
  "config \<Rightarrow> ('p, 'obs) network \<Rightarrow> 'p \<Rightarrow> ('obs, 'info) Transition list \<Rightarrow> real list \<Rightarrow> real list
     \<Rightarrow> real \<times> (real \<times> real \<times> real)" where
  "loss_fn cfg net ps traj_batch gae targets =
     (let vals = map (\<lambda>t. net_value net ps (obs t)) traj_batch;
          log_probs = map (\<lambda>t. net_log_prob net ps (obs t) (action t)) traj_batch;
          value_loss = 1 / 2 * mean (map (\<lambda>(t, v, tg). value_loss_term (CLIP_EPS cfg) (value' t) v tg)
                                    (zip traj_batch (zip vals targets)));
          ratio = map2 (\<lambda>lp t. exp (lp - log_prob t)) log_probs traj_batch;
          gae = normalize_advantages gae;
          loss_actor = map2 (actor_loss_term (CLIP_EPS cfg)) ratio gae;
          loss_actor = mean loss_actor;
          entropy = mean (map (\<lambda>t. net_entropy net ps (obs t)) traj_batch);
          total_loss = loss_actor + VF_COEF cfg * value_loss - ENT_COEF cfg * entropy
      in (total_loss, (value_loss, loss_actor, entropy)))"

text \<open>
  The value loss as the specification words it: half the mean, over the minibatch, of the
  larger of the squared error of the new value and the squared error of the new value
  clipped to within \<open>eps\<close> of the value recorded at collection time.
\<close>

definition spec_value_loss :: "real \<Rightarrow> (real \<times> real \<times> real) list \<Rightarrow> real" where
  "spec_value_loss eps rows =
     1 / 2 * mean (map (\<lambda>(old_value, val, target).
        max ((val - target)\<^sup>2)
            ((jnp_clip val (old_value - eps) (old_value + eps) - target)\<^sup>2)) rows)"

section \<open>Policy Updater\<close>

text \<open>
  The training state of the optimiser library (\<^verbatim>\<open>TrainState\<close>): a step counter, the
  parameters and the optimiser state. \<^verbatim>\<open>apply_gradients\<close> asks the gradient transformation
  for the new parameters and optimiser state and counts the step.
\<close>

record ('p, 's) TrainState =
  step :: nat
  params :: 'p
  opt_state :: 's

text \<open>
  The execution engine, a collaborator: splitting a pseudo-random key, drawing a
  permutation of \<open>range(n)\<close> from a key, differentiating a loss with respect to the
  parameters, and the optimiser's update.
\<close>

record ('k, 'p, 's, 'g) engine =
  random_split :: "'k \<Rightarrow> 'k \<times> 'k"
  random_permutation :: "'k \<Rightarrow> int \<Rightarrow> nat list"
  grad :: "('p \<Rightarrow> real) \<Rightarrow> 'p \<Rightarrow> 'g"
  tx_update :: "'g \<Rightarrow> 's \<Rightarrow> 'p \<Rightarrow> 'p \<times> 's"

definition apply_gradients ::
  "('k, 'p, 's, 'g) engine \<Rightarrow> ('p, 's) TrainState \<Rightarrow> 'g \<Rightarrow> ('p, 's) TrainState" where
  "apply_gradients eng train_state grads =
     (let (new_params, new_opt_state) =
            tx_update eng grads (opt_state train_state) (params train_state)
      in train_state\<lparr>step := step train_state + 1, params := new_params,
                        opt_state := new_opt_state\<rparr>)"

text \<open>\<^verbatim>\<open>_update_minbatch\<close>: one gradient step on one minibatch.\<close>

definition update_minbatch ::
  "config \<Rightarrow> ('k, 'p, 's, 'g) engine \<Rightarrow> ('p, 'obs) network \<Rightarrow> ('p, 's) TrainState
     \<Rightarrow> ('obs, 'info) Transition list \<times> real list \<times> real list
     \<Rightarrow> ('p, 's) TrainState \<times> (real \<times> (real \<times> real \<times> real))" where
  "update_minbatch cfg eng net train_state batch_info =
     (let (traj_batch, advantages, targets) = batch_info;
          total_loss = loss_fn cfg net (params train_state) traj_batch advantages targets;
          grads = grad eng (\<lambda>ps. fst (loss_fn cfg net ps traj_batch advantages targets))
                    (params train_state);
          train_state = apply_gradients eng train_state grads
      in (train_state, total_loss))"

text \<open>
  The array operations of \<^verbatim>\<open>_update_epoch\<close>. An array with leading axes (time, actor) is a
  list of rows, one per time step, each a list of per-actor entries (an entry stands for
  the trailing axes, which are not empty).

  \<^item> \<open>reshape_merge\<close> is \<^verbatim>\<open>x.reshape((batch_size,) + x.shape[2:])\<close>: the entries in row
    order, refused when their number is not \<open>batch_size\<close> (a \<open>batch_size\<close> of -1 asks
    the library to infer the number).
  \<^item> \<open>jnp_take\<close> is \<^verbatim>\<open>jnp.take(x, permutation, axis=0)\<close>. The indices of a permutation of
    \<open>range(batch_size)\<close> are all in range; for an index out of range (where the library
    would fill in a placeholder entry) the model stops with \<open>IndexError\<close>.
  \<^item> \<open>split_minibatches\<close> is
    \<^verbatim>\<open>jnp.reshape(x, [NUM_MINIBATCHES, -1] + list(x.shape[1:]))\<close>: that many contiguous
    chunks of equal size, refused when the number of chunks is not positive or does not
    divide the number of entries.
\<close>

definition reshape_merge :: "int \<Rightarrow> 'a list list \<Rightarrow> error + 'a list" where
  "reshape_merge batch_size x =
     (if batch_size = - 1 \<or> int (length (concat x)) = batch_size then Inr (concat x)
      else Inl ShapeMismatch)"

definition jnp_take :: "'a list \<Rightarrow> nat list \<Rightarrow> error + 'a list" where
  "jnp_take x indices =
     (if \<exists>i \<in> set indices. length x \<le> i then Inl IndexError
      else Inr (map (\<lambda>i. x ! i) indices))"

fun chunks :: "nat \<Rightarrow> nat \<Rightarrow> 'a list \<Rightarrow> 'a list list" where
  "chunks 0 m xs = []"
| "chunks (Suc k) m xs = take m xs # chunks k m (drop m xs)"

definition split_minibatches :: "int \<Rightarrow> 'a list \<Rightarrow> error + 'a list list" where
  "split_minibatches num_minibatches x =
     (if num_minibatches \<le> 0 \<or> int (length x) mod num_minibatches \<noteq> 0 then Inl ShapeMismatch
      else Inr (chunks (nat num_minibatches) (length x div nat num_minibatches) x))"

text \<open>
  \<^verbatim>\<open>jax.tree_util.tree_map\<close> over the tuple \<^verbatim>\<open>(traj_batch, advantages, targets)\<close>: the same
  operation on each of the three arrays, in this order; the first failure is the result.
  The three arguments are the one (polymorphic) operation at the three entry types.
\<close>

definition tree_map3 ::
  "('a \<Rightarrow> error + 'd) \<Rightarrow> ('b \<Rightarrow> error + 'e) \<Rightarrow> ('c \<Rightarrow> error + 'f) \<Rightarrow> 'a \<times> 'b \<times> 'c
     \<Rightarrow> error + ('d \<times> 'e \<times> 'f)" where
  "tree_map3 f1 f2 f3 batch =
     (let (x1, x2, x3) = batch
      in bind_result (f1 x1) (\<lambda>y1. bind_result (f2 x2) (\<lambda>y2. bind_result (f3 x3) (\<lambda>y3.
           Inr (y1, y2, y3)))))"

text \<open>
  The shuffle and the split of \<^verbatim>\<open>_update_epoch\<close> (from \<^verbatim>\<open>batch = ...\<close> to
  \<^verbatim>\<open>minibatches\<close>). The result lists the slices the scan over \<^verbatim>\<open>minibatches\<close> hands to
  \<^verbatim>\<open>_update_minbatch\<close>: the k-th chunk of each of the three arrays.
\<close>

definition shuffle_minibatches ::
  "config \<Rightarrow> nat list \<Rightarrow> int \<Rightarrow> 'a list list \<times> 'b list list \<times> 'c list list
     \<Rightarrow> error + ('a list \<times> 'b list \<times> 'c list) list" where
  "shuffle_minibatches cfg permutation batch_size batch =
     bind_result (tree_map3 (reshape_merge batch_size) (reshape_merge batch_size)
                    (reshape_merge batch_size) batch) (\<lambda>batch.
     bind_result (tree_map3 (\<lambda>x. jnp_take x permutation) (\<lambda>x. jnp_take x permutation)
                    (\<lambda>x. jnp_take x permutation) batch) (\<lambda>shuffled_batch.
     bind_result (tree_map3 (split_minibatches (NUM_MINIBATCHES cfg))
                    (split_minibatches (NUM_MINIBATCHES cfg))
                    (split_minibatches (NUM_MINIBATCHES cfg)) shuffled_batch) (\<lambda>minibatches.
       let (m1, m2, m3) = minibatches in Inr (zip m1 (zip m2 m3)))))"

text \<open>\<^verbatim>\<open>_update_epoch\<close>: the carried update state in, the new one and the losses out.\<close>

definition update_epoch ::
  "config \<Rightarrow> ('k, 'p, 's, 'g) engine \<Rightarrow> ('p, 'obs) network
     \<Rightarrow> ('p, 's) TrainState \<times> ('obs, 'info) Transition list list \<times> real list list
          \<times> real list list \<times> 'k
     \<Rightarrow> error + ((('p, 's) TrainState \<times> ('obs, 'info) Transition list list \<times> real list list
          \<times> real list list \<times> 'k) \<times> (real \<times> (real \<times> real \<times> real)) list)" where
  "update_epoch cfg eng net update_state =
     (let (train_state, traj_batch, advantages, targets, rng) = update_state;
          (rng, rng') = random_split eng rng;
          batch_size = MINIBATCH_SIZE cfg * NUM_MINIBATCHES cfg
      in if batch_size \<noteq> NUM_STEPS cfg * NUM_ACTORS cfg then Inl AssertionError
         else
           let permutation = random_permutation eng rng' batch_size;
               batch = (traj_batch, advantages, targets)
           in bind_result (shuffle_minibatches cfg permutation batch_size batch) (\<lambda>minibatches.
                let (train_state, total_loss) =
                      scan (update_minbatch cfg eng net) train_state minibatches;
                    update_state = (train_state, traj_batch, advantages, targets, rng)
                in Inr (update_state, total_loss)))"

text \<open>
  A scan whose body can fail, over \<open>n\<close> rounds without per-round input
  (\<^verbatim>\<open>jax.lax.scan(f, init, None, n)\<close>): the first failure is the result.
\<close>

fun scan_rounds :: "('c \<Rightarrow> error + ('c \<times> 'y)) \<Rightarrow> 'c \<Rightarrow> nat \<Rightarrow> error + ('c \<times> 'y list)" where
  "scan_rounds f init 0 = Inr (init, [])"
| "scan_rounds f init (Suc n) =
     bind_result (f init) (\<lambda>(carry, y).
     bind_result (scan_rounds f carry n) (\<lambda>(final, ys). Inr (final, y # ys)))"

text \<open>
  The update phase of \<^verbatim>\<open>_update_step\<close>: \<^verbatim>\<open>UPDATE_EPOCHS\<close> rounds of \<^verbatim>\<open>_update_epoch\<close> on
  the update state built from the collected trajectory. \<^verbatim>\<open>jax.lax.scan\<close> traces its body
  once before any round runs, whatever the number of rounds, so a failure of the body on
  the initial update state (the assert, a refused reshape) is raised even when the number
  of rounds is zero. The number of rounds is taken as a natural number.
\<close>

definition update_epochs ::
  "config \<Rightarrow> ('k, 'p, 's, 'g) engine \<Rightarrow> ('p, 'obs) network
     \<Rightarrow> ('p, 's) TrainState \<times> ('obs, 'info) Transition list list \<times> real list list
          \<times> real list list \<times> 'k
     \<Rightarrow> error + ((('p, 's) TrainState \<times> ('obs, 'info) Transition list list \<times> real list list
          \<times> real list list \<times> 'k) \<times> (real \<times> (real \<times> real \<times> real)) list list)" where
  "update_epochs cfg eng net update_state =
     bind_result (update_epoch cfg eng net update_state) (\<lambda>traced.
       scan_rounds (update_epoch cfg eng net) update_state (nat (UPDATE_EPOCHS cfg)))"

section \<open>A small instance\<close>

text \<open>
  A configuration with two steps, two actors and two minibatches of two entries, an
  engine whose permutation reverses the batch, and a one-parameter network: concrete
  inputs on which the definitions above are evaluated.
\<close>

definition example_config :: config where
  "example_config =
     \<lparr>NUM_ENVS = 1, NUM_STEPS = 2, TOTAL_TIMESTEPS = 8, UPDATE_EPOCHS = 2, NUM_MINIBATCHES = 2,
      GAMMA = 99 / 100, GAE_LAMBDA = 95 / 100, CLIP_EPS = 1 / 5, ENT_COEF = 1 / 100,
      VF_COEF = 1 / 2, NUM_ACTORS = 2, NUM_UPDATES = 4, MINIBATCH_SIZE = 2\<rparr>"

definition example_engine :: "(nat, real, unit, real) engine" where
  "example_engine =
     \<lparr>random_split = (\<lambda>k. (2 * k, 2 * k + 1)),
      random_permutation = (\<lambda>k n. rev [0..<nat n]),
      grad = (\<lambda>f p. f (p + 1) - f p),
      tx_update = (\<lambda>g s p. (p - g / 4, s))\<rparr>"

definition example_network :: "(real, real) network" where
  "example_network =
     \<lparr>net_value = (\<lambda>p x. p * x), net_log_prob = (\<lambda>p x a. 0), net_entropy = (\<lambda>p x. 0)\<rparr>"

definition example_transition :: "real \<Rightarrow> (real, unit) Transition" where
  "example_transition x =
     \<lparr>done' = False, action = 0, value' = x, reward = 1, log_prob = 0, obs = x, info = ()\<rparr>"

definition example_traj_batch :: "(real, unit) Transition list list" where
  "example_traj_batch =
     [[example_transition 1, example_transition 2], [example_transition 3, example_transition 4]]"

definition example_advantages :: "real list list" where
  "example_advantages = [[1, 2], [3, 4]]"

definition example_targets :: "real list list" where
  "example_targets = [[2, 4], [6, 8]]"

definition example_train_state :: "(real, unit) TrainState" where
  "example_train_state = \<lparr>step = 0, params = 1, opt_state = ()\<rparr>"

text \<open>
  The trajectory of the scenario: rewards [1,0,0,1], values [0.5,0.5,0.5,0.5], dones
  [0,0,0,1], for one actor slot.
\<close>

definition scenario_transition :: "real \<Rightarrow> bool \<Rightarrow> (unit, unit) Transition" where
  "scenario_transition r d =
     \<lparr>done' = d, action = 0, value' = 1 / 2, reward = r, log_prob = 0, obs = (), info = ()\<rparr>"

definition scenario_traj_batch :: "(unit, unit) Transition list" where
  "scenario_traj_batch =
     [scenario_transition 1 False, scenario_transition 0 False,
      scenario_transition 0 False, scenario_transition 1 True]"

section \<open>Properties of the Advantage Estimator\<close>

lemma scan_append:
  "scan f init (xs @ ys) =
     (let (carry, us) = scan f init xs; (final, vs) = scan f carry ys in (final, us @ vs))"
  by (induction xs arbitrary: init) (auto simp: Let_def split: prod.splits)

lemma scan_reverse_Nil: "scan_reverse f init [] = (init, [])"
  by (simp add: scan_reverse_def)

lemma scan_reverse_Cons:
  "scan_reverse f init (x # xs) =
     (let (carry, ys) = scan_reverse f init xs; (final, y) = f carry x in (final, y # ys))"
  by (simp add: scan_reverse_def scan_append Let_def split: prod.splits)

lemma length_scan: "scan f init xs = (final, ys) \<Longrightarrow> length ys = length xs"
proof (induction xs arbitrary: init final ys)
  case Nil
  then show ?case by simp
next
  case (Cons x xs)
  obtain carry y where step: "f init x = (carry, y)" by (cases "f init x")
  obtain final' ys' where rest: "scan f carry xs = (final', ys')" by (cases "scan f carry xs")
  from Cons.prems step rest have "ys = y # ys'" by simp
  with Cons.IH [OF rest] show ?case by simp
qed

lemma length_scan_reverse:
  "scan_reverse f init xs = (final, ys) \<Longrightarrow> length ys = length xs"
proof -
  assume a: "scan_reverse f init xs = (final, ys)"
  obtain c zs where r: "scan f init (rev xs) = (c, zs)" by (cases "scan f init (rev xs)")
  from a r have "ys = rev zs" by (simp add: scan_reverse_def)
  with length_scan [OF r] show ?thesis by simp
qed

text \<open>
  The invariant of the reverse scan of \<open>get_advantages\<close>: the carry holds the advantage
  and the value of the earliest step visited so far, and every output obeys the
  recursion of the estimator.
\<close>

lemma gae_scan_invariant:
  assumes "scan_reverse (get_advantages cfg) (0, last_val) traj_batch = ((g, nv), advantages)"
  shows "length advantages = length traj_batch
       \<and> g = (if traj_batch = [] then 0 else advantages ! 0)
       \<and> nv = (if traj_batch = [] then last_val else value' (traj_batch ! 0))
       \<and> (\<forall>t < length traj_batch.
            advantages ! t =
              delta_at cfg traj_batch last_val t
                + GAMMA cfg * GAE_LAMBDA cfg * (1 - of_bool (done' (traj_batch ! t)))
                    * next_advantage_at advantages t)"
  using assms
proof (induction traj_batch arbitrary: g nv advantages)
  case Nil
  then show ?case by (simp add: scan_reverse_Nil)
next
  case (Cons x xs)
  obtain g' nv' advs' where
    rest: "scan_reverse (get_advantages cfg) (0, last_val) xs = ((g', nv'), advs')"
    by (metis surj_pair)
  note IH = Cons.IH [OF rest]
  from IH have len: "length advs' = length xs" by simp
  from IH have g': "g' = (if xs = [] then 0 else advs' ! 0)" by simp
  from IH have nv': "nv' = (if xs = [] then last_val else value' (xs ! 0))" by simp
  from IH have rec: "\<forall>t < length xs. advs' ! t =
      delta_at cfg xs last_val t
        + GAMMA cfg * GAE_LAMBDA cfg * (1 - of_bool (done' (xs ! t))) * next_advantage_at advs' t"
    by simp
  define d where "d = reward x + GAMMA cfg * nv' * (1 - of_bool (done' x)) - value' x"
  define a where "a = d + GAMMA cfg * GAE_LAMBDA cfg * (1 - of_bool (done' x)) * g'"
  have step: "get_advantages cfg (g', nv') x = ((a, value' x), a)"
    by (simp add: get_advantages_def Let_def a_def d_def)
  from Cons.prems rest step have res: "g = a" "nv = value' x" "advantages = a # advs'"
    by (auto simp: scan_reverse_Cons)
  have nva: "next_value_at (x # xs) last_val 0 = nv'"
    using nv' by (cases xs) (simp_all add: next_value_at_def)
  have naa: "next_advantage_at (a # advs') 0 = g'"
    using g' len by (cases xs) (simp_all add: next_advantage_at_def)
  have head: "(a # advs') ! 0 =
      delta_at cfg (x # xs) last_val 0
        + GAMMA cfg * GAE_LAMBDA cfg * (1 - of_bool (done' ((x # xs) ! 0)))
            * next_advantage_at (a # advs') 0"
    unfolding naa by (simp add: delta_at_def nva a_def d_def)
  have tail: "(a # advs') ! Suc t =
      delta_at cfg (x # xs) last_val (Suc t)
        + GAMMA cfg * GAE_LAMBDA cfg * (1 - of_bool (done' ((x # xs) ! Suc t)))
            * next_advantage_at (a # advs') (Suc t)" if "t < length xs" for t
  proof -
    have "delta_at cfg (x # xs) last_val (Suc t) = delta_at cfg xs last_val t"
      by (simp add: delta_at_def next_value_at_def)
    moreover have "next_advantage_at (a # advs') (Suc t) = next_advantage_at advs' t"
      by (simp add: next_advantage_at_def)
    ultimately show ?thesis using rec that by simp
  qed
  have all: "\<forall>t < length (x # xs). (a # advs') ! t =
      delta_at cfg (x # xs) last_val t
        + GAMMA cfg * GAE_LAMBDA cfg * (1 - of_bool (done' ((x # xs) ! t)))
            * next_advantage_at (a # advs') t"
  proof (intro allI impI)
    fix t assume "t < length (x # xs)"
    then show "(a # advs') ! t =
      delta_at cfg (x # xs) last_val t
        + GAMMA cfg * GAE_LAMBDA cfg * (1 - of_bool (done' ((x # xs) ! t)))
            * next_advantage_at (a # advs') t"
      using head tail by (cases t) simp_all
  qed
  show ?case unfolding res using len all by simp
qed

text \<open>
  C1. For every trajectory and every bootstrap value, the advantages and targets returned
  by \<open>calculate_gae\<close> have one entry per step and satisfy, at every step \<open>t\<close>,
  \<open>advantage t = delta t + gamma * lambda * (1 - done t) * advantage (t + 1)\<close> with
  \<open>delta t = reward t + gamma * next_value t * (1 - done t) - value t\<close>, where the
  advantage after the last step is 0, the next value of the last step is the bootstrap
  value and that of an earlier step is the value of the following step; and
  \<open>target t = advantage t + value t\<close>.
\<close>

theorem calculate_gae_recursion:
  assumes "calculate_gae cfg traj_batch last_val = (advantages, targets)"
  shows "length advantages = length traj_batch \<and> length targets = length traj_batch
       \<and> (\<forall>t < length traj_batch.
            advantages ! t =
              delta_at cfg traj_batch last_val t
                + GAMMA cfg * GAE_LAMBDA cfg * (1 - of_bool (done' (traj_batch ! t)))
                    * next_advantage_at advantages t
          \<and> targets ! t = advantages ! t + value' (traj_batch ! t))"
proof -
  obtain g nv advs where
    sc: "scan_reverse (get_advantages cfg) (0, last_val) traj_batch = ((g, nv), advs)"
    by (metis surj_pair)
  from assms sc have adv: "advantages = advs"
    and tg: "targets = map2 (+) advs (map value' traj_batch)"
    by (auto simp: calculate_gae_def)
  from gae_scan_invariant [OF sc] have len: "length advs = length traj_batch"
    and rec: "\<forall>t < length traj_batch. advs ! t =
        delta_at cfg traj_batch last_val t
          + GAMMA cfg * GAE_LAMBDA cfg * (1 - of_bool (done' (traj_batch ! t)))
              * next_advantage_at advs t"
    by simp_all
  have "targets ! t = advs ! t + value' (traj_batch ! t)" if "t < length traj_batch" for t
    using that len by (simp add: tg)
  with len rec show ?thesis by (simp add: adv tg)
qed

theorem calculate_gae_recursion_witness:
  "calculate_gae \<lparr>NUM_ENVS = 1, NUM_STEPS = 2, TOTAL_TIMESTEPS = 2, UPDATE_EPOCHS = 1, NUM_MINIBATCHES = 1,
       GAMMA = 1 / 2, GAE_LAMBDA = 1 / 2, CLIP_EPS = 1 / 5, ENT_COEF = 0, VF_COEF = 1,
       NUM_ACTORS = 1, NUM_UPDATES = 1, MINIBATCH_SIZE = 2\<rparr>
     [\<lparr>done' = False, action = 0, value' = 1, reward = 2, log_prob = 0, obs = (), info = ()\<rparr>,
      \<lparr>done' = False, action = 0, value' = 3, reward = 4, log_prob = 0, obs = (), info = ()\<rparr>]
     8
   = ([15 / 4, 5], [19 / 4, 8])
   \<and> (15 / 4 :: real) = (2 + 1 / 2 * 3 * (1 - 0) - 1) + 1 / 2 * (1 / 2) * (1 - 0) * 5
   \<and> (5 :: real) = (4 + 1 / 2 * 8 * (1 - 0) - 3) + 1 / 2 * (1 / 2) * (1 - 0) * 0"
proof -
  let ?cfg = "\<lparr>NUM_ENVS = 1, NUM_STEPS = 2, TOTAL_TIMESTEPS = 2, UPDATE_EPOCHS = 1, NUM_MINIBATCHES = 1,
       GAMMA = 1 / 2, GAE_LAMBDA = 1 / 2, CLIP_EPS = 1 / 5, ENT_COEF = 0, VF_COEF = 1,
       NUM_ACTORS = 1, NUM_UPDATES = 1, MINIBATCH_SIZE = 2\<rparr>"
  let ?traj = "[\<lparr>done' = False, action = 0, value' = 1, reward = 2, log_prob = 0, obs = (), info = ()\<rparr>,
      \<lparr>done' = False, action = 0, value' = 3, reward = (4::real), log_prob = 0, obs = (), info = ()\<rparr>]"
  have run: "calculate_gae ?cfg ?traj 8 = ([15 / 4, 5], [19 / 4, 8])"
    by (simp add: calculate_gae_def scan_reverse_def get_advantages_def Let_def)
  from calculate_gae_recursion [OF run] show ?thesis
    by (simp add: run)
qed

lemma scale_up_numeral:
  "scale_up (numeral k) x e = (if x < 1 then scale_up (pred_numeral k) (x * 2) (e - 1) else e)"
  by (simp add: numeral_eq_Suc)

lemma scale_down_numeral:
  "scale_down (numeral k) x e = (if 2 \<le> x then scale_down (pred_numeral k) (x / 2) (e + 1) else e)"
  by (simp add: numeral_eq_Suc)

lemma round_float_zero: "round_float p emin emax 0 = 0"
  by (simp add: round_float_def round_half_even_def)

lemmas float_eval =
  float32_def float64_def round_float_def binade_def scale_up_numeral scale_down_numeral
  round_half_even_def Let_def power_int_minus

text \<open>
  The two constants of the estimator in 32 bits: 0.99 becomes 0.9900000095367432, and
  the 64-bit product of 0.99 and 0.95 becomes 0.940500020980835.
\<close>

lemma float32_gamma: "float32 (float64 (99 / 100)) = 4152361 / 4194304"
  by (simp add: float_eval)

lemma float32_gamma_lambda:
  "float32 (float64 (float64 (99 / 100) * float64 (95 / 100))) = 3944743 / 4194304"
  by (simp add: float_eval)

text \<open>
  C8 (as stated, refuted). On the scenario's input, with gamma = 0.99, lambda = 0.95 and
  the bootstrap value 0.5, the estimator computing in 32-bit floating point returns at
  step 2 the number 243925 / 524288 = 0.46525001525878906, whether or not the product
  and the sum of the advantage update are contracted; the recursion applied by hand gives
  0.46525, which no binary floating-point number equals.
\<close>

theorem calculate_gae_f32_counterexample:
  "fst (calculate_gae_f32 True example_config scenario_traj_batch (1 / 2)) ! 2 = 243925 / 524288
   \<and> fst (calculate_gae_f32 False example_config scenario_traj_batch (1 / 2)) ! 2 = 243925 / 524288
   \<and> fst (calculate_gae_f32 True example_config scenario_traj_batch (1 / 2)) ! 2 \<noteq> 46525 / 100000
   \<and> fst (calculate_gae_f32 False example_config scenario_traj_batch (1 / 2)) ! 2 \<noteq> 46525 / 100000"
  by (simp add: calculate_gae_f32_def scan_reverse_def get_advantages_f32_def example_config_def
      scenario_traj_batch_def scenario_transition_def Let_def)
     (simp add: float_eval)?

text \<open>
  C8 (amended). With gamma = 0.99, lambda = 0.95, rewards [1,0,0,1], values
  [0.5,0.5,0.5,0.5], dones [0,0,0,1] and bootstrap value 0.5, the estimator computing in
  32-bit floating point returns the advantages 1.4018298387527466 (1.4018299579620361
  when the product and the sum of the advantage update are rounded one after the other),
  0.43256765604019165, 0.46525001525878906 and 0.5. The advantage of the last step is
  exactly 0.5 for every bootstrap value (the done flag removes the bootstrap term). In
  exact arithmetic the recursion applied backward from the last step gives
  1.4018298513125, 0.432567625, 0.46525 and 0.5, and each floating-point advantage is
  within \<open>2\<^sup>-\<^sup>2\<^sup>3\<close> of its exact value.
\<close>

theorem calculate_gae_scenario:
  "fst (calculate_gae_f32 contract (cfg\<lparr>GAMMA := 99 / 100, GAE_LAMBDA := 95 / 100\<rparr>)
     [tr\<lparr>reward := 1, value' := 1 / 2, done' := False\<rparr>,
      tr\<lparr>reward := 0, value' := 1 / 2, done' := False\<rparr>,
      tr\<lparr>reward := 0, value' := 1 / 2, done' := False\<rparr>,
      tr\<lparr>reward := 1, value' := 1 / 2, done' := True\<rparr>]
     (1 / 2))
   = [if contract then 11759401 / 8388608 else 5879701 / 4194304,
      7257281 / 16777216, 243925 / 524288, 1 / 2]
   \<and> fst (calculate_gae_f32 contract (cfg\<lparr>GAMMA := 99 / 100, GAE_LAMBDA := 95 / 100\<rparr>)
     [tr\<lparr>reward := 1, value' := 1 / 2, done' := False\<rparr>,
      tr\<lparr>reward := 0, value' := 1 / 2, done' := False\<rparr>,
      tr\<lparr>reward := 0, value' := 1 / 2, done' := False\<rparr>,
      tr\<lparr>reward := 1, value' := 1 / 2, done' := True\<rparr>]
     last_val) ! 3 = 1 / 2
   \<and> fst (calculate_gae (cfg\<lparr>GAMMA := 99 / 100, GAE_LAMBDA := 95 / 100\<rparr>)
     [tr\<lparr>reward := 1, value' := 1 / 2, done' := False\<rparr>,
      tr\<lparr>reward := 0, value' := 1 / 2, done' := False\<rparr>,
      tr\<lparr>reward := 0, value' := 1 / 2, done' := False\<rparr>,
      tr\<lparr>reward := 1, value' := 1 / 2, done' := True\<rparr>]
     (1 / 2))
   = [14018298513125 / 10000000000000, 432567625 / 1000000000, 46525 / 100000, 1 / 2]
   \<and> \<bar>11759401 / 8388608 - 14018298513125 / 10000000000000\<bar> < (1 / 2 ^ 23 :: real)
   \<and> \<bar>5879701 / 4194304 - 14018298513125 / 10000000000000\<bar> < (1 / 2 ^ 23 :: real)
   \<and> \<bar>7257281 / 16777216 - 432567625 / 1000000000\<bar> < (1 / 2 ^ 23 :: real)
   \<and> \<bar>243925 / 524288 - 46525 / 100000\<bar> < (1 / 2 ^ 23 :: real)"
proof (intro conjI)
  show "fst (calculate_gae_f32 contract (cfg\<lparr>GAMMA := 99 / 100, GAE_LAMBDA := 95 / 100\<rparr>)
     [tr\<lparr>reward := 1, value' := 1 / 2, done' := False\<rparr>,
      tr\<lparr>reward := 0, value' := 1 / 2, done' := False\<rparr>,
      tr\<lparr>reward := 0, value' := 1 / 2, done' := False\<rparr>,
      tr\<lparr>reward := 1, value' := 1 / 2, done' := True\<rparr>]
     (1 / 2))
   = [if contract then 11759401 / 8388608 else 5879701 / 4194304,
      7257281 / 16777216, 243925 / 524288, 1 / 2]"
    by (cases contract;
        simp add: calculate_gae_f32_def scan_reverse_def get_advantages_f32_def Let_def;
        (simp add: float_eval)?)
  show "fst (calculate_gae_f32 contract (cfg\<lparr>GAMMA := 99 / 100, GAE_LAMBDA := 95 / 100\<rparr>)
     [tr\<lparr>reward := 1, value' := 1 / 2, done' := False\<rparr>,
      tr\<lparr>reward := 0, value' := 1 / 2, done' := False\<rparr>,
      tr\<lparr>reward := 0, value' := 1 / 2, done' := False\<rparr>,
      tr\<lparr>reward := 1, value' := 1 / 2, done' := True\<rparr>]
     last_val) ! 3 = 1 / 2"
    by (cases contract;
        simp add: calculate_gae_f32_def scan_reverse_def get_advantages_f32_def Let_def;
        (simp add: float_eval)?)
  show "fst (calculate_gae (cfg\<lparr>GAMMA := 99 / 100, GAE_LAMBDA := 95 / 100\<rparr>)
     [tr\<lparr>reward := 1, value' := 1 / 2, done' := False\<rparr>,
      tr\<lparr>reward := 0, value' := 1 / 2, done' := False\<rparr>,
      tr\<lparr>reward := 0, value' := 1 / 2, done' := False\<rparr>,
      tr\<lparr>reward := 1, value' := 1 / 2, done' := True\<rparr>]
     (1 / 2))
   = [14018298513125 / 10000000000000, 432567625 / 1000000000, 46525 / 100000, 1 / 2]"
    by (simp add: calculate_gae_def scan_reverse_def get_advantages_def Let_def)
qed simp_all

section \<open>Lists cut into blocks\<close>

lemma length_chunks: "length (chunks k m xs) = k"
  by (induction k arbitrary: xs) simp_all

lemma concat_chunks: "length xs = k * m \<Longrightarrow> concat (chunks k m xs) = xs"
  by (induction k arbitrary: xs) simp_all

lemma chunks_nth: "c < k \<Longrightarrow> chunks k m xs ! c = take m (drop (c * m) xs)"
proof (induction k arbitrary: xs c)
  case 0
  then show ?case by simp
next
  case (Suc k)
  show ?case
  proof (cases c)
    case 0
    then show ?thesis by simp
  next
    case (Suc c')
    with Suc.prems have "c' < k" by simp
    from Suc.IH [OF this, of "drop m xs"] Suc show ?thesis by (simp add: add.commute)
  qed
qed

section \<open>Properties of the Batch Adapter\<close>

lemma lookup_all_present:
  "(\<forall>a \<in> set as. x a \<noteq> None) \<Longrightarrow> lookup_all x as = Inr (map (\<lambda>a. the (x a)) as)"
  by (induction as) (auto simp: bind_result_def)

lemma lookup_all_missing:
  "(\<exists>a \<in> set as. x a = None) \<Longrightarrow> lookup_all x as = Inl KeyError"
proof (induction as)
  case Nil
  then show ?case by simp
next
  case (Cons a as)
  show ?case
  proof (cases "x a")
    case None
    then show ?thesis by simp
  next
    case (Some v)
    with Cons.prems have "\<exists>a \<in> set as. x a = None" by auto
    from Cons.IH [OF this] Some show ?thesis by (simp add: bind_result_def)
  qed
qed

lemma lookup_all_restrict: "set as \<subseteq> S \<Longrightarrow> lookup_all (x |` S) as = lookup_all x as"
  by (induction as) (simp_all add: restrict_map_def split: option.splits)

lemma concat_block:
  "(\<forall>xs \<in> set xss. length xs = m) \<Longrightarrow> i < length xss
     \<Longrightarrow> take m (drop (i * m) (concat xss)) = xss ! i"
proof (induction xss arbitrary: i)
  case Nil
  then show ?case by simp
next
  case (Cons xs xss)
  then have len: "length xs = m" by simp
  show ?case
  proof (cases i)
    case 0
    with len show ?thesis by simp
  next
    case (Suc j)
    with Cons.prems have "j < length xss" by simp
    with Cons.IH [of j] Cons.prems(1) have "take m (drop (j * m) (concat xss)) = xss ! j" by simp
    with len Suc show ?thesis by simp
  qed
qed

lemma concat_blocks:
  assumes "length D = n * m"
  shows "concat (map (\<lambda>i. take m (drop (i * m) D)) [0..<n]) = D"
proof -
  have "chunks n m D = map (\<lambda>i. take m (drop (i * m) D)) [0..<n]"
    by (rule nth_equalityI) (simp_all add: length_chunks chunks_nth)
  with concat_chunks [OF assms] show ?thesis by simp
qed

lemma getitem_in_range:
  "i < n \<Longrightarrow> getitem (Array (n # rest) d) i
     = Inr (Array rest (take (prod_list rest) (drop (i * prod_list rest) d)))"
proof -
  assume "i < n"
  then have "min i (n - 1) = i" "n \<noteq> 0" by simp_all
  then show ?thesis by (simp add: getitem_def Let_def)
qed

lemma dict_comprehension_by_key:
  assumes "\<forall>j < length bs. getitem X (k + j) = Inr (F (bs ! j))"
  shows "dict_comprehension X (enumerate k bs) d
           = Inr (\<lambda>key. if key \<in> set bs then Some (F key) else d key)"
  using assms
proof (induction bs arbitrary: k d)
  case Nil
  then show ?case by simp
next
  case (Cons b bs)
  from Cons.prems have hd: "getitem X k = Inr (F b)" by auto
  have "\<forall>j < length bs. getitem X (Suc k + j) = Inr (F (bs ! j))"
  proof (intro allI impI)
    fix j assume "j < length bs"
    then have "Suc j < length (b # bs)" by simp
    with Cons.prems have "getitem X (k + Suc j) = Inr (F ((b # bs) ! Suc j))" by blast
    then show "getitem X (Suc k + j) = Inr (F (bs ! j))" by simp
  qed
  then have IH: "dict_comprehension X (enumerate (Suc k) bs) (d(b \<mapsto> F b))
      = Inr (\<lambda>key. if key \<in> set bs then Some (F key) else (d(b \<mapsto> F b)) key)"
    by (rule Cons.IH)
  have "(\<lambda>key. if key \<in> set bs then Some (F key) else (d(b \<mapsto> F b)) key)
      = (\<lambda>key. if key \<in> set (b # bs) then Some (F key) else d key)"
    by (rule ext) simp
  with hd IH show ?case by (simp add: bind_result_def)
qed

lemma roundtrip_dict:
  assumes ne: "agent_list \<noteq> []" and envs: "0 < num_envs"
    and keys: "dom x = set agent_list"
    and wf: "\<forall>a \<in> set agent_list. \<exists>d. x a = Some (Array [num_envs, feature_dim] d)
                \<and> length d = num_envs * feature_dim"
  shows "batchify x agent_list (length agent_list * num_envs)
           = Inr (Array [length agent_list * num_envs, feature_dim]
                    (concat (map (\<lambda>a. data (the (x a))) agent_list)))"
    and "unbatchify (Array [length agent_list * num_envs, feature_dim]
                    (concat (map (\<lambda>a. data (the (x a))) agent_list)))
           agent_list num_envs (length agent_list) = Inr x"
proof -
  define n where "n = length agent_list"
  define vs where "vs = map (\<lambda>a. the (x a)) agent_list"
  define D where "D = concat (map data vs)"
  have npos: "0 < n" using ne by (simp add: n_def)
  have present: "\<forall>a \<in> set agent_list. x a \<noteq> None" using wf by auto
  have shp: "shape v = [num_envs, feature_dim]" and len: "length (data v) = num_envs * feature_dim"
    if "v \<in> set vs" for v
    using that wf by (auto simp: vs_def)
  have look: "lookup_all x agent_list = Inr vs"
    using lookup_all_present [OF present] by (simp add: vs_def)
  obtain v vs' where vs: "vs = v # vs'" using ne by (cases vs) (auto simp: vs_def)
  have "list_all (\<lambda>b. shape b = shape v) vs'"
    using shp by (simp add: vs list_all_iff)
  moreover have "shape v = [num_envs, feature_dim]" using shp by (simp add: vs)
  moreover have "length vs = n" by (simp add: vs_def n_def)
  ultimately have stack: "jnp_stack vs = Inr (Array [n, num_envs, feature_dim] D)"
    by (simp add: jnp_stack_def vs D_def)
  have resh: "reshape_infer [n * num_envs] (Array [n, num_envs, feature_dim] D)
      = Inr (Array [n * num_envs, feature_dim] D)"
    using npos envs by (simp add: reshape_infer_def)
  have D: "D = concat (map (\<lambda>a. data (the (x a))) agent_list)"
    by (simp add: D_def vs_def comp_def)
  show "batchify x agent_list (length agent_list * num_envs)
           = Inr (Array [length agent_list * num_envs, feature_dim]
                    (concat (map (\<lambda>a. data (the (x a))) agent_list)))"
    unfolding D [symmetric] n_def [symmetric]
    by (simp add: batchify_def look stack resh bind_result_def)
  have resh2: "reshape_infer [n, num_envs] (Array [n * num_envs, feature_dim] D)
      = Inr (Array [n, num_envs, feature_dim] D)"
    using npos envs by (simp add: reshape_infer_def)
  have row: "getitem (Array [n, num_envs, feature_dim] D) (0 + j) = Inr (the (x (agent_list ! j)))"
    if "j < length agent_list" for j
  proof -
    have "\<forall>xs \<in> set (map data vs). length xs = num_envs * feature_dim"
      using len by auto
    moreover have "j < length (map data vs)" using that by (simp add: vs_def)
    ultimately have "take (num_envs * feature_dim) (drop (j * (num_envs * feature_dim)) D)
        = map data vs ! j"
      unfolding D_def by (rule concat_block)
    moreover have "vs ! j \<in> set vs" using that by (simp add: vs_def)
    then have "shape (vs ! j) = [num_envs, feature_dim]" by (rule shp)
    then have "Array [num_envs, feature_dim] (data (vs ! j)) = vs ! j"
      using ndarray.collapse [of "vs ! j"] by simp
    moreover have "vs ! j = the (x (agent_list ! j))" using that by (simp add: vs_def)
    ultimately show ?thesis using that by (simp add: getitem_in_range n_def vs_def)
  qed
  then have "dict_comprehension (Array [n, num_envs, feature_dim] D) (enumerate 0 agent_list) Map.empty
      = Inr (\<lambda>key. if key \<in> set agent_list then Some (the (x key)) else Map.empty key)"
    by (intro dict_comprehension_by_key) simp
  moreover have "(\<lambda>key. if key \<in> set agent_list then Some (the (x key)) else Map.empty key) = x"
  proof (rule ext)
    fix key
    show "(if key \<in> set agent_list then Some (the (x key)) else Map.empty key) = x key"
    proof (cases "key \<in> set agent_list")
      case True
      with present show ?thesis by auto
    next
      case False
      with keys have "key \<notin> dom x" by simp
      then have "x key = None" by (simp add: domIff)
      with False show ?thesis by simp
    qed
  qed
  ultimately show "unbatchify (Array [length agent_list * num_envs, feature_dim]
                    (concat (map (\<lambda>a. data (the (x a))) agent_list)))
           agent_list num_envs (length agent_list) = Inr x"
    unfolding D [symmetric] n_def [symmetric]
    by (simp add: unbatchify_def resh2 bind_result_def)
qed

lemma roundtrip_array:
  assumes ne: "agent_list \<noteq> []" and envs: "0 < num_envs"
    and dist: "distinct agent_list"
    and len: "length values = length agent_list * num_envs * feature_dim"
  shows "\<exists>d. unbatchify (Array [length agent_list * num_envs, feature_dim] values)
               agent_list num_envs (length agent_list) = Inr d
          \<and> dom d = set agent_list
          \<and> batchify d agent_list (length agent_list * num_envs)
               = Inr (Array [length agent_list * num_envs, feature_dim] values)"
proof -
  define n where "n = length agent_list"
  define m where "m = num_envs * feature_dim"
  define rows where "rows = map (\<lambda>i. Array [num_envs, feature_dim] (take m (drop (i * m) values))) [0..<n]"
  define F where "F key = the (map_of (zip agent_list rows) key)" for key
  define d where "d = (\<lambda>key. if key \<in> set agent_list then Some (F key) else None)"
  have npos: "0 < n" using ne by (simp add: n_def)
  have lrows: "length rows = length agent_list" by (simp add: rows_def n_def)
  have Fj: "F (agent_list ! j) = rows ! j" if "j < length agent_list" for j
    using that dist lrows by (simp add: F_def map_of_zip_nth)
  have resh: "reshape_infer [n, num_envs] (Array [n * num_envs, feature_dim] values)
      = Inr (Array [n, num_envs, feature_dim] values)"
    using npos envs by (simp add: reshape_infer_def)
  have "getitem (Array [n, num_envs, feature_dim] values) (0 + j) = Inr (F (agent_list ! j))"
    if "j < length agent_list" for j
    using that by (simp add: getitem_in_range Fj rows_def n_def m_def)
  then have "dict_comprehension (Array [n, num_envs, feature_dim] values) (enumerate 0 agent_list)
      Map.empty = Inr d"
    unfolding d_def by (intro dict_comprehension_by_key) simp
  then have un: "unbatchify (Array [n * num_envs, feature_dim] values) agent_list num_envs n = Inr d"
    by (simp add: unbatchify_def resh bind_result_def)
  have dom: "dom d = set agent_list" by (auto simp: d_def split: if_splits)
  have "lookup_all d agent_list = Inr (map (\<lambda>a. the (d a)) agent_list)"
    by (rule lookup_all_present) (simp add: d_def)
  moreover have "map (\<lambda>a. the (d a)) agent_list = rows"
    by (rule nth_equalityI) (simp_all add: lrows d_def Fj)
  ultimately have look: "lookup_all d agent_list = Inr rows" by simp
  have "concat (map data rows) = concat (map (\<lambda>i. take m (drop (i * m) values)) [0..<n])"
    by (simp add: rows_def comp_def)
  also have "\<dots> = values"
    by (rule concat_blocks) (simp add: len n_def m_def mult.assoc)
  finally have data: "concat (map data rows) = values" .
  obtain r rs where rows: "rows = r # rs" using npos lrows by (cases rows) (auto simp: n_def)
  have all_shape: "\<forall>v \<in> set rows. shape v = [num_envs, feature_dim]"
    by (auto simp: rows_def)
  then have "shape r = [num_envs, feature_dim]" "list_all (\<lambda>b. shape b = shape r) rs"
    by (simp_all add: rows list_all_iff)
  then have stack: "jnp_stack rows = Inr (Array [n, num_envs, feature_dim] values)"
    using data lrows by (simp add: jnp_stack_def rows n_def)
  have resh2: "reshape_infer [n * num_envs] (Array [n, num_envs, feature_dim] values)
      = Inr (Array [n * num_envs, feature_dim] values)"
    using npos envs by (simp add: reshape_infer_def)
  have "batchify d agent_list (n * num_envs) = Inr (Array [n * num_envs, feature_dim] values)"
    by (simp add: batchify_def look stack resh2 bind_result_def)
  with un dom show ?thesis unfolding n_def by blast
qed

text \<open>
  C2 (as stated, refuted). A reward dictionary of two agents over two environments holds
  one-dimensional arrays of shape (2); batchify turns it into an array of shape (4, 1),
  and unbatchify returns arrays of shape (2, 1): the round trip does not give the
  dictionary back.
\<close>

theorem roundtrip_rank1_counterexample:
  "bind_result
     (batchify [''agent_0'' \<mapsto> Array [2] [1, 0 :: int], ''agent_1'' \<mapsto> Array [2] [1, 0]]
        [''agent_0'', ''agent_1''] 4)
     (\<lambda>y. unbatchify y [''agent_0'', ''agent_1''] 2 2)
   \<noteq> Inr [''agent_0'' \<mapsto> Array [2] [1, 0 :: int], ''agent_1'' \<mapsto> Array [2] [1, 0]]"
proof -
  have rt: "bind_result
     (batchify [''agent_0'' \<mapsto> Array [2] [1, 0 :: int], ''agent_1'' \<mapsto> Array [2] [1, 0]]
        [''agent_0'', ''agent_1''] 4)
     (\<lambda>y. unbatchify y [''agent_0'', ''agent_1''] 2 2)
     = Inr [''agent_0'' \<mapsto> Array [2, 1] [1, 0], ''agent_1'' \<mapsto> Array [2, 1] [1, 0]]"
    by (simp add: batchify_def jnp_stack_def unbatchify_def reshape_infer_def bind_result_def
        getitem_def enumerate_eq_zip upt_rec)
  have "[''agent_0'' \<mapsto> Array [2, 1] [1, 0], ''agent_1'' \<mapsto> Array [2, 1] [1, 0 :: int]] ''agent_1''
     \<noteq> [''agent_0'' \<mapsto> Array [2] [1, 0 :: int], ''agent_1'' \<mapsto> Array [2] [1, 0]] ''agent_1''"
    by simp
  then have "[''agent_0'' \<mapsto> Array [2, 1] [1, 0], ''agent_1'' \<mapsto> Array [2, 1] [1, 0 :: int]]
     \<noteq> [''agent_0'' \<mapsto> Array [2] [1, 0 :: int], ''agent_1'' \<mapsto> Array [2] [1, 0]]"
    by metis
  then show ?thesis unfolding rt by simp
qed

text \<open>
  C2 (amended). For a non-empty agent list and a positive number of environments: when
  the keys of the dictionary \<open>x\<close> are exactly the agents of the list and every value is a
  two-dimensional array of shape (num_envs, feature_dim), unbatchify after batchify
  returns \<open>x\<close>; and when the agents of the list are distinct, batchify after
  unbatchify returns every array of shape (num_actors, feature_dim), where
  num_actors = len(agent_list) * num_envs.
\<close>

theorem batchify_unbatchify_roundtrip:
  "(agent_list \<noteq> [] \<and> 0 < num_envs \<and> dom x = set agent_list
      \<and> (\<forall>a \<in> set agent_list. \<exists>d. x a = Some (Array [num_envs, feature_dim] d)
             \<and> length d = num_envs * feature_dim)
     \<longrightarrow> bind_result (batchify x agent_list (length agent_list * num_envs))
           (\<lambda>y. unbatchify y agent_list num_envs (length agent_list)) = Inr x)
   \<and> (agent_list \<noteq> [] \<and> 0 < num_envs \<and> distinct agent_list
      \<and> length values = length agent_list * num_envs * feature_dim
     \<longrightarrow> bind_result
           (unbatchify (Array [length agent_list * num_envs, feature_dim] values)
              agent_list num_envs (length agent_list))
           (\<lambda>d. batchify d agent_list (length agent_list * num_envs))
         = Inr (Array [length agent_list * num_envs, feature_dim] values))"
proof (intro conjI impI)
  assume a: "agent_list \<noteq> [] \<and> 0 < num_envs \<and> dom x = set agent_list
      \<and> (\<forall>a \<in> set agent_list. \<exists>d. x a = Some (Array [num_envs, feature_dim] d)
             \<and> length d = num_envs * feature_dim)"
  then have "batchify x agent_list (length agent_list * num_envs)
           = Inr (Array [length agent_list * num_envs, feature_dim]
                    (concat (map (\<lambda>a. data (the (x a))) agent_list)))"
    by (intro roundtrip_dict(1)) simp_all
  moreover from a have "unbatchify (Array [length agent_list * num_envs, feature_dim]
                    (concat (map (\<lambda>a. data (the (x a))) agent_list)))
           agent_list num_envs (length agent_list) = Inr x"
    by (intro roundtrip_dict(2)) simp_all
  ultimately show "bind_result (batchify x agent_list (length agent_list * num_envs))
           (\<lambda>y. unbatchify y agent_list num_envs (length agent_list)) = Inr x"
    by (simp add: bind_result_def)
next
  assume "agent_list \<noteq> [] \<and> 0 < num_envs \<and> distinct agent_list
      \<and> length values = length agent_list * num_envs * feature_dim"
  then obtain d where
    "unbatchify (Array [length agent_list * num_envs, feature_dim] values)
       agent_list num_envs (length agent_list) = Inr d"
    "batchify d agent_list (length agent_list * num_envs)
       = Inr (Array [length agent_list * num_envs, feature_dim] values)"
    using roundtrip_array [of agent_list num_envs "values" feature_dim] by blast
  then show "bind_result
           (unbatchify (Array [length agent_list * num_envs, feature_dim] values)
              agent_list num_envs (length agent_list))
           (\<lambda>d. batchify d agent_list (length agent_list * num_envs))
         = Inr (Array [length agent_list * num_envs, feature_dim] values)"
    by (simp add: bind_result_def)
qed

theorem batchify_unbatchify_roundtrip_witness:
  "bind_result
     (batchify [''agent_0'' \<mapsto> Array [2, 1] [1, 0 :: int], ''agent_1'' \<mapsto> Array [2, 1] [3, 4]]
        [''agent_0'', ''agent_1''] 4)
     (\<lambda>y. unbatchify y [''agent_0'', ''agent_1''] 2 2)
   = Inr [''agent_0'' \<mapsto> Array [2, 1] [1, 0 :: int], ''agent_1'' \<mapsto> Array [2, 1] [3, 4]]
   \<and> bind_result
       (unbatchify (Array [4, 1] [1, 0, 3, 4 :: int]) [''agent_0'', ''agent_1''] 2 2)
       (\<lambda>d. batchify d [''agent_0'', ''agent_1''] 4)
     = Inr (Array [4, 1] [1, 0, 3, 4 :: int])"
proof -
  let ?x = "[''agent_0'' \<mapsto> Array [2, 1] [1, 0 :: int], ''agent_1'' \<mapsto> Array [2, 1] [3, 4]]"
  let ?al = "[''agent_0'', ''agent_1'']"
  have h1: "?al \<noteq> [] \<and> 0 < (2 :: nat) \<and> dom ?x = set ?al
      \<and> (\<forall>a \<in> set ?al. \<exists>d. ?x a = Some (Array [2, 1] d) \<and> length d = 2 * 1)"
    by auto
  have h2: "?al \<noteq> [] \<and> 0 < (2 :: nat) \<and> distinct ?al
      \<and> length [1, 0, 3, 4 :: int] = length ?al * 2 * 1"
    by simp
  have fwd: "bind_result (batchify ?x ?al (length ?al * 2))
      (\<lambda>y. unbatchify y ?al 2 (length ?al)) = Inr ?x"
    by (rule batchify_unbatchify_roundtrip [THEN conjunct1, rule_format, OF h1])
  have bwd: "bind_result (unbatchify (Array [length ?al * 2, 1] [1, 0, 3, 4 :: int]) ?al 2 (length ?al))
      (\<lambda>d. batchify d ?al (length ?al * 2)) = Inr (Array [length ?al * 2, 1] [1, 0, 3, 4 :: int])"
    by (rule batchify_unbatchify_roundtrip [THEN conjunct2, rule_format, OF h2])
  have l: "length ?al = 2" by simp
  from fwd bwd show ?thesis unfolding l by simp
qed

text \<open>
  C9 (as stated, refuted). The done dictionary of the environment holds the sentinel key
  \<^verbatim>\<open>__all__\<close> beside the agents; its key set differs from the agent list, and batchify
  succeeds on it.
\<close>

theorem batchify_extra_key_counterexample:
  "dom [''agent_0'' \<mapsto> Array [1] [True], ''__all__'' \<mapsto> Array [1] [True]] \<noteq> set [''agent_0'']
   \<and> batchify [''agent_0'' \<mapsto> Array [1] [True], ''__all__'' \<mapsto> Array [1] [True]] [''agent_0''] 1
       = Inr (Array [1, 1] [True])"
proof
  have "''__all__'' \<in> dom [''agent_0'' \<mapsto> Array [1] [True], ''__all__'' \<mapsto> Array [1] [True]]"
    by simp
  moreover have "''__all__'' \<notin> set [''agent_0'']" by simp
  ultimately show
    "dom [''agent_0'' \<mapsto> Array [1] [True], ''__all__'' \<mapsto> Array [1] [True]] \<noteq> set [''agent_0'']"
    by metis
  show "batchify [''agent_0'' \<mapsto> Array [1] [True], ''__all__'' \<mapsto> Array [1] [True]] [''agent_0''] 1
       = Inr (Array [1, 1] [True])"
    by (simp add: batchify_def jnp_stack_def reshape_infer_def bind_result_def)
qed

text \<open>
  C9 (amended). batchify fails with a key error whenever the dictionary lacks a key of
  the agent list; keys of the dictionary outside the agent list are ignored: the result
  is that of the dictionary restricted to the agents of the list.
\<close>

theorem batchify_key_mismatch:
  "((\<exists>a \<in> set agent_list. a \<notin> dom x) \<longrightarrow> batchify x agent_list num_actors = Inl KeyError)
   \<and> batchify x agent_list num_actors = batchify (x |` set agent_list) agent_list num_actors"
proof
  show "(\<exists>a \<in> set agent_list. a \<notin> dom x) \<longrightarrow> batchify x agent_list num_actors = Inl KeyError"
  proof
    assume "\<exists>a \<in> set agent_list. a \<notin> dom x"
    then have "\<exists>a \<in> set agent_list. x a = None" by (simp add: domIff)
    then have "lookup_all x agent_list = Inl KeyError" by (rule lookup_all_missing)
    then show "batchify x agent_list num_actors = Inl KeyError"
      by (simp add: batchify_def bind_result_def)
  qed
  have "lookup_all (x |` set agent_list) agent_list = lookup_all x agent_list"
    by (rule lookup_all_restrict) simp
  then show "batchify x agent_list num_actors
      = batchify (x |` set agent_list) agent_list num_actors"
    by (simp add: batchify_def)
qed

theorem batchify_key_mismatch_witness:
  "(\<exists>a \<in> set [''agent_0'', ''agent_1'']. a \<notin> dom [''agent_0'' \<mapsto> Array [1] [True]])
   \<and> batchify [''agent_0'' \<mapsto> Array [1] [True]] [''agent_0'', ''agent_1''] 2 = Inl KeyError"
proof -
  have h: "\<exists>a \<in> set [''agent_0'', ''agent_1'']. a \<notin> dom [''agent_0'' \<mapsto> Array [1] [True]]"
    by simp
  with batchify_key_mismatch [of "[''agent_0'', ''agent_1'']" "[''agent_0'' \<mapsto> Array [1] [True]]" 2]
  show ?thesis by blast
qed

section \<open>Properties of the loss function\<close>

lemma value_pred_clipped_eq:
  "old_value + jnp_clip (val - old_value) (- eps) eps
     = jnp_clip val (old_value - eps) (old_value + eps)"
  by (simp add: jnp_clip_def min_def max_def)

lemma value_loss_term_eq:
  "value_loss_term eps old_value val target =
     max ((val - target)\<^sup>2) ((jnp_clip val (old_value - eps) (old_value + eps) - target)\<^sup>2)"
  by (simp add: value_loss_term_def Let_def value_pred_clipped_eq)

lemma jnp_clip_interval:
  "lo \<le> hi \<Longrightarrow> jnp_clip x lo hi = (if x < lo then lo else if hi < x then hi else x)"
  by (simp add: jnp_clip_def min_def max_def)

text \<open>
  C5. The value loss returned by the loss function (the first auxiliary output) is half
  the mean, over the minibatch, of the larger of \<open>(value - target)\<^sup>2\<close> and
  \<open>(clipped_value - target)\<^sup>2\<close>, where the clipped value is the new value clipped to
  \<open>[old_value - eps, old_value + eps]\<close>: the expression of the code,
  \<open>old_value + clip (value - old_value) (- eps) eps\<close>, equals that clipped value, which
  for a non-negative \<open>eps\<close> is the nearest point of the interval.
\<close>

theorem value_loss_clipped:
  "fst (snd (loss_fn cfg net ps traj_batch gae targets)) =
     spec_value_loss (CLIP_EPS cfg)
       (map (\<lambda>(t, tg). (value' t, net_value net ps (obs t), tg)) (zip traj_batch targets))
   \<and> (\<forall>old_value val eps.
        old_value + jnp_clip (val - old_value) (- eps) eps
          = jnp_clip val (old_value - eps) (old_value + eps)
      \<and> (0 \<le> eps \<longrightarrow>
           jnp_clip val (old_value - eps) (old_value + eps)
             = (if val < old_value - eps then old_value - eps
                else if old_value + eps < val then old_value + eps else val)))"
proof -
  have rows: "map (\<lambda>(t, v, tg). value_loss_term (CLIP_EPS cfg) (value' t) v tg)
                (zip traj_batch (zip (map (\<lambda>t. net_value net ps (obs t)) traj_batch) targets))
            = map (\<lambda>(old_value, val, target).
                max ((val - target)\<^sup>2)
                  ((jnp_clip val (old_value - CLIP_EPS cfg) (old_value + CLIP_EPS cfg) - target)\<^sup>2))
                (map (\<lambda>(t, tg). (value' t, net_value net ps (obs t), tg)) (zip traj_batch targets))"
  proof (induction traj_batch arbitrary: targets)
    case Nil
    then show ?case by simp
  next
    case (Cons t ts)
    then show ?case by (cases targets) (simp_all add: value_loss_term_eq)
  qed
  have "fst (snd (loss_fn cfg net ps traj_batch gae targets)) =
     spec_value_loss (CLIP_EPS cfg)
       (map (\<lambda>(t, tg). (value' t, net_value net ps (obs t), tg)) (zip traj_batch targets))"
    unfolding loss_fn_def spec_value_loss_def Let_def by (simp add: rows)
  then show ?thesis
    using value_pred_clipped_eq jnp_clip_interval by simp
qed

theorem value_loss_clipped_witness:
  "fst (snd (loss_fn example_config example_network 2
       [example_transition 1, example_transition 2] [1, - 1] [3, 3])) = 53 / 50
   \<and> (1 :: real) + jnp_clip (2 - 1) (- (1 / 5)) (1 / 5) = 6 / 5
   \<and> jnp_clip 2 (1 - 1 / 5) (1 + 1 / 5) = 6 / 5"
proof -
  note inst = value_loss_clipped [of example_config example_network 2
      "[example_transition 1, example_transition 2]" "[1, - 1]" "[3, 3]"]
  from inst have "fst (snd (loss_fn example_config example_network 2
       [example_transition 1, example_transition 2] [1, - 1] [3, 3]))
     = spec_value_loss (1 / 5) [(1, 2, 3), (2, 4, 3)]"
    by (simp add: example_config_def example_network_def example_transition_def)
  moreover have "spec_value_loss (1 / 5) [(1, 2, 3), (2, 4, 3)] = 53 / 50"
    by (simp add: spec_value_loss_def mean_def jnp_clip_def power2_eq_square)
  moreover from inst have "(1 :: real) + jnp_clip (2 - 1) (- (1 / 5)) (1 / 5)
      = jnp_clip 2 (1 - 1 / 5) (1 + 1 / 5)"
    by blast
  moreover have "jnp_clip 2 (1 - 1 / 5) (1 + 1 / 5) = 6 / 5"
    by (simp add: jnp_clip_def)
  ultimately show ?thesis by simp
qed

lemma min_mult_nonneg: "0 \<le> (g::real) \<Longrightarrow> min (a * g) (b * g) = min a b * g"
proof (cases "a \<le> b")
  case True
  assume "0 \<le> g"
  with True have "a * g \<le> b * g" by (rule mult_right_mono)
  with True show ?thesis by (simp add: min_absorb1)
next
  case False
  assume "0 \<le> g"
  moreover from False have "b \<le> a" by simp
  ultimately have "b * g \<le> a * g" by (rule_tac mult_right_mono)
  with \<open>b \<le> a\<close> show ?thesis by (simp add: min_absorb2)
qed

lemma min_mult_nonpos: "(g::real) \<le> 0 \<Longrightarrow> min (a * g) (b * g) = max a b * g"
proof (cases "a \<le> b")
  case True
  assume "g \<le> 0"
  with True have "b * g \<le> a * g" by (rule mult_right_mono_neg)
  with True show ?thesis by (simp add: min_absorb2 max_absorb2)
next
  case False
  assume "g \<le> 0"
  moreover from False have "b \<le> a" by simp
  ultimately have "a * g \<le> b * g" by (rule_tac mult_right_mono_neg)
  with \<open>b \<le> a\<close> show ?thesis by (simp add: min_absorb1 max_absorb1)
qed

text \<open>
  C6 (amended). For a non-negative clip range \<open>eps\<close> and a non-negative ratio (the
  ratio is an exponential), the per-element actor loss
  \<open>- min (ratio * adv) (clip ratio (1 - eps) (1 + eps) * adv)\<close> satisfies
  \<open>\<bar>component\<bar> \<le> (1 + eps) * \<bar>adv\<bar>\<close> whenever the advantage is non-negative or the
  ratio is at most \<open>1 + eps\<close>.
\<close>

theorem actor_loss_term_bound:
  assumes eps: "0 \<le> eps" and r: "0 \<le> ratio" and side: "0 \<le> gae \<or> ratio \<le> 1 + eps"
  shows "\<bar>actor_loss_term eps ratio gae\<bar> \<le> (1 + eps) * \<bar>gae\<bar>"
proof -
  define c where "c = jnp_clip ratio (1 - eps) (1 + eps)"
  have c_le: "c \<le> 1 + eps" by (simp add: c_def jnp_clip_def)
  have c_ge: "0 \<le> c" using eps r by (simp add: c_def jnp_clip_def min_def max_def)
  have unf: "actor_loss_term eps ratio gae = - min (ratio * gae) (c * gae)"
    by (simp add: actor_loss_term_def c_def Let_def)
  show ?thesis
  proof (cases "0 \<le> gae")
    case True
    define m where "m = min ratio c"
    have m: "0 \<le> m" "m \<le> 1 + eps" using r c_ge c_le by (simp_all add: m_def)
    have "actor_loss_term eps ratio gae = - (m * gae)"
      using True by (simp add: unf min_mult_nonneg m_def)
    then have "\<bar>actor_loss_term eps ratio gae\<bar> = m * gae"
      using True m by (simp add: abs_mult)
    also have "\<dots> \<le> (1 + eps) * gae" using m True by (rule_tac mult_right_mono)
    finally show ?thesis using True by simp
  next
    case False
    then have neg: "gae \<le> 0" and rle: "ratio \<le> 1 + eps" using side by simp_all
    define m where "m = max ratio c"
    have m: "0 \<le> m" "m \<le> 1 + eps" using r c_ge c_le rle by (simp_all add: m_def max_def)
    have "actor_loss_term eps ratio gae = - (m * gae)"
      using neg by (simp add: unf min_mult_nonpos m_def)
    then have "\<bar>actor_loss_term eps ratio gae\<bar> = m * (- gae)"
      using neg m by (simp add: abs_mult)
    also have "\<dots> \<le> (1 + eps) * (- gae)" using m neg by (rule_tac mult_right_mono) simp_all
    finally show ?thesis using neg by simp
  qed
qed

theorem actor_loss_term_bound_witness:
  "actor_loss_term (1 / 5) 3 2 = - (12 / 5)
   \<and> \<bar>actor_loss_term (1 / 5) 3 2\<bar> \<le> (1 + 1 / 5) * \<bar>2\<bar>"
proof -
  have "\<bar>actor_loss_term (1 / 5) 3 2\<bar> \<le> (1 + 1 / 5) * \<bar>2\<bar>"
    by (rule actor_loss_term_bound) simp_all
  moreover have "actor_loss_term (1 / 5) 3 2 = - (12 / 5)"
    by (simp add: actor_loss_term_def jnp_clip_def)
  ultimately show ?thesis by simp
qed

lemma normalize_advantages_pair:
  "normalize_advantages [1, - 1] = [1 / (1 + 1 / 10 ^ 8), - 1 / (1 + 1 / 10 ^ 8)]"
  by (simp add: normalize_advantages_def mean_def std_def)

text \<open>
  C6 (as stated, refuted). With \<open>eps = 0.2\<close>, a ratio of 1.2 (inside the clip range
  \<open>[0.8, 1.2]\<close>) and the normalized advantages of the minibatch \<open>[1, -1]\<close>, the
  magnitude of the first component is 1.2 times that of its advantage, not at most it.
\<close>

theorem actor_loss_term_counterexample:
  "\<not> \<bar>actor_loss_term (1 / 5) (6 / 5) (hd (normalize_advantages [1, - 1]))\<bar>
      \<le> \<bar>hd (normalize_advantages [1, - 1])\<bar>"
  by (simp add: normalize_advantages_pair actor_loss_term_def jnp_clip_def Let_def)

section \<open>Properties of the Policy Updater\<close>

lemma zip_chunks:
  "map (\<lambda>(a, b, c). zip a (zip b c))
       (zip (chunks k m xs) (zip (chunks k m ys) (chunks k m zs)))
   = chunks k m (zip xs (zip ys zs))"
  by (induction k arbitrary: xs ys zs) (simp_all add: take_zip drop_zip)

lemma perm_indices_in_range:
  assumes "mset permutation = mset [0..<n]"
  shows "set permutation = {0..<n}" "length permutation = n"
proof -
  from assms have "set_mset (mset permutation) = set_mset (mset [0..<n])" by simp
  then show "set permutation = {0..<n}" by simp
  from assms have "size (mset permutation) = size (mset [0..<n])" by simp
  then show "length permutation = n" by simp
qed

lemma mset_map_nth_perm:
  assumes "mset permutation = mset [0..<n]" "length xs = n"
  shows "mset (map ((!) xs) permutation) = mset xs"
proof -
  have "mset (map ((!) xs) permutation) = image_mset ((!) xs) (mset permutation)" by simp
  also have "\<dots> = image_mset ((!) xs) (mset [0..<n])" using assms by simp
  also have "\<dots> = mset (map ((!) xs) [0..<n])" by simp
  also have "\<dots> = mset xs" using assms(2) map_nth [of xs] by simp
  finally show ?thesis .
qed

lemma zip3_map_nth:
  "zip (map ((!) xs) p) (zip (map ((!) ys) p) (map ((!) zs) p))
     = map (\<lambda>i. (xs ! i, ys ! i, zs ! i)) p"
  by (induction p) simp_all

lemma zip3_nth:
  assumes "length xs = n" "length ys = n" "length zs = n" "set p \<subseteq> {0..<n}"
  shows "map (\<lambda>i. (xs ! i, ys ! i, zs ! i)) p = map ((!) (zip xs (zip ys zs))) p"
  using assms by (auto simp: subset_eq)

lemma tree_map3_Inr:
  "f1 x1 = Inr y1 \<Longrightarrow> f2 x2 = Inr y2 \<Longrightarrow> f3 x3 = Inr y3
     \<Longrightarrow> tree_map3 f1 f2 f3 (x1, x2, x3) = Inr (y1, y2, y3)"
  by (simp add: tree_map3_def bind_result_def)

lemma jnp_take_in_range:
  "set indices \<subseteq> {0..<length x} \<Longrightarrow> jnp_take x indices = Inr (map ((!) x) indices)"
  by (auto simp: jnp_take_def)

lemma split_minibatches_exact:
  assumes "0 < k" "length x = m * k"
  shows "split_minibatches (int k) x = Inr (chunks k m x)"
  using assms by (simp add: split_minibatches_def)

lemma chunks_numeral:
  "chunks (numeral k) m xs = take m xs # chunks (pred_numeral k) m (drop m xs)"
  by (simp add: numeral_eq_Suc)

text \<open>
  C4. For every permutation of the indices of the flattened batch, when the batch size
  is \<open>MINIBATCH_SIZE * NUM_MINIBATCHES\<close>: the shuffle and split succeed and give
  \<open>NUM_MINIBATCHES\<close> minibatches; minibatch \<open>c\<close> holds, for the trajectory, the
  advantages and the targets alike, the entries at the indices found at positions
  \<open>c * MINIBATCH_SIZE\<close> up to \<open>(c + 1) * MINIBATCH_SIZE\<close> of the permutation (a
  contiguous chunk, the three fields in lockstep); and the aligned triples of all
  minibatches together are exactly the aligned triples of the original batch, each once.
\<close>

theorem shuffle_minibatches_partition:
  assumes perm: "mset permutation = mset [0..<n]"
    and l1: "length (concat traj_batch) = n"
    and l2: "length (concat advantages) = n"
    and l3: "length (concat targets) = n"
    and kpos: "0 < NUM_MINIBATCHES cfg"
    and size: "int n = MINIBATCH_SIZE cfg * NUM_MINIBATCHES cfg"
  shows "\<exists>mbs. shuffle_minibatches cfg permutation (int n) (traj_batch, advantages, targets) = Inr mbs
      \<and> length mbs = nat (NUM_MINIBATCHES cfg)
      \<and> (\<forall>c < nat (NUM_MINIBATCHES cfg). mbs ! c =
            (map ((!) (concat traj_batch))
               (take (nat (MINIBATCH_SIZE cfg)) (drop (c * nat (MINIBATCH_SIZE cfg)) permutation)),
             map ((!) (concat advantages))
               (take (nat (MINIBATCH_SIZE cfg)) (drop (c * nat (MINIBATCH_SIZE cfg)) permutation)),
             map ((!) (concat targets))
               (take (nat (MINIBATCH_SIZE cfg)) (drop (c * nat (MINIBATCH_SIZE cfg)) permutation))))
      \<and> mset (concat (map (\<lambda>(t, a, g). zip t (zip a g)) mbs))
          = mset (zip (concat traj_batch) (zip (concat advantages) (concat targets)))"
proof -
  define k where "k = nat (NUM_MINIBATCHES cfg)"
  define m where "m = nat (MINIBATCH_SIZE cfg)"
  define T where "T = concat traj_batch"
  define A where "A = concat advantages"
  define G where "G = concat targets"
  define PT where "PT = map ((!) T) permutation"
  define PA where "PA = map ((!) A) permutation"
  define PG where "PG = map ((!) G) permutation"
  define mbs where "mbs = zip (chunks k m PT) (zip (chunks k m PA) (chunks k m PG))"
  have k: "0 < k" "NUM_MINIBATCHES cfg = int k" using kpos by (simp_all add: k_def)
  have mnn: "0 \<le> MINIBATCH_SIZE cfg"
  proof (rule ccontr)
    assume "\<not> 0 \<le> MINIBATCH_SIZE cfg"
    then have "MINIBATCH_SIZE cfg * NUM_MINIBATCHES cfg < 0"
      using kpos by (simp add: mult_neg_pos)
    with size show False by simp
  qed
  then have m: "MINIBATCH_SIZE cfg = int m" by (simp add: m_def)
  from size have "int n = int (m * k)" by (simp add: m k)
  then have n: "n = m * k" by (simp only: of_nat_eq_iff)
  have lp: "length permutation = n" and sp: "set permutation = {0..<n}"
    using perm_indices_in_range [OF perm] by simp_all
  have lT: "length T = n" and lA: "length A = n" and lG: "length G = n"
    using l1 l2 l3 by (simp_all add: T_def A_def G_def)
  have r1: "tree_map3 (reshape_merge (int n)) (reshape_merge (int n)) (reshape_merge (int n))
              (traj_batch, advantages, targets) = Inr (T, A, G)"
    by (rule tree_map3_Inr) (simp_all add: reshape_merge_def l1 l2 l3 T_def A_def G_def)
  have r2: "tree_map3 (\<lambda>x. jnp_take x permutation) (\<lambda>x. jnp_take x permutation)
              (\<lambda>x. jnp_take x permutation) (T, A, G) = Inr (PT, PA, PG)"
    by (rule tree_map3_Inr) (simp_all add: jnp_take_in_range sp lT lA lG PT_def PA_def PG_def)
  have r3: "tree_map3 (split_minibatches (NUM_MINIBATCHES cfg))
              (split_minibatches (NUM_MINIBATCHES cfg))
              (split_minibatches (NUM_MINIBATCHES cfg)) (PT, PA, PG)
            = Inr (chunks k m PT, chunks k m PA, chunks k m PG)"
    unfolding k(2)
    by (rule tree_map3_Inr)
       (simp_all add: split_minibatches_exact [OF k(1)] PT_def PA_def PG_def lp n)
  have run: "shuffle_minibatches cfg permutation (int n) (traj_batch, advantages, targets) = Inr mbs"
    by (simp add: shuffle_minibatches_def r1 r2 r3 bind_result_def mbs_def)
  have len: "length mbs = k" by (simp add: mbs_def length_chunks)
  have chunk: "mbs ! c =
      (map ((!) T) (take m (drop (c * m) permutation)),
       map ((!) A) (take m (drop (c * m) permutation)),
       map ((!) G) (take m (drop (c * m) permutation)))" if "c < k" for c
    using that
    by (simp add: mbs_def length_chunks chunks_nth PT_def PA_def PG_def take_map drop_map)
  have "concat (map (\<lambda>(t, a, g). zip t (zip a g)) mbs) = zip PT (zip PA PG)"
    unfolding mbs_def zip_chunks
    by (rule concat_chunks) (simp add: PT_def PA_def PG_def lp n mult.commute)
  also have "\<dots> = map ((!) (zip T (zip A G))) permutation"
    unfolding PT_def PA_def PG_def zip3_map_nth
    by (rule zip3_nth [OF lT lA lG]) (simp add: sp)
  finally have "mset (concat (map (\<lambda>(t, a, g). zip t (zip a g)) mbs)) = mset (zip T (zip A G))"
    using mset_map_nth_perm [OF perm, of "zip T (zip A G)"] lT lA lG by simp
  with run len chunk show ?thesis
    unfolding k_def [symmetric] m_def [symmetric] T_def [symmetric] A_def [symmetric]
      G_def [symmetric]
    by blast
qed

theorem shuffle_minibatches_partition_witness:
  "mset [2, 0, 3, 1] = mset [0..<4]
   \<and> shuffle_minibatches example_config [2, 0, 3, 1] 4
        ([[10, 11], [12, 13 :: nat]], [[20, 21], [22, 23 :: nat]], [[30, 31], [32, 33 :: nat]])
      = Inr [([12, 10], [22, 20], [32, 30]), ([13, 11], [23, 21], [33, 31])]
   \<and> mset (zip [12, 10, 13, 11] (zip [22, 20, 23, 21] [32, 30, 33, 31 :: nat]))
      = mset (zip [10, 11, 12, 13 :: nat] (zip [20, 21, 22, 23 :: nat] [30, 31, 32, 33]))"
proof -
  have p: "mset [2, 0, 3, 1] = mset [0..<4]" by code_simp
  have run: "shuffle_minibatches example_config [2, 0, 3, 1] 4
        ([[10, 11], [12, 13 :: nat]], [[20, 21], [22, 23 :: nat]], [[30, 31], [32, 33 :: nat]])
      = Inr [([12, 10], [22, 20], [32, 30]), ([13, 11], [23, 21], [33, 31])]"
    by (simp add: shuffle_minibatches_def tree_map3_def reshape_merge_def jnp_take_def
        split_minibatches_def bind_result_def example_config_def chunks_numeral)
  have l1: "length (concat [[10, 11], [12, 13 :: nat]]) = 4"
    and l2: "length (concat [[20, 21], [22, 23 :: nat]]) = 4"
    and l3: "length (concat [[30, 31], [32, 33 :: nat]]) = 4"
    by simp_all
  have k: "0 < NUM_MINIBATCHES example_config"
    and sz: "int 4 = MINIBATCH_SIZE example_config * NUM_MINIBATCHES example_config"
    by (simp_all add: example_config_def)
  from shuffle_minibatches_partition [OF p l1 l2 l3 k sz] obtain mbs where
    r: "shuffle_minibatches example_config [2, 0, 3, 1] (int 4)
          ([[10, 11], [12, 13 :: nat]], [[20, 21], [22, 23 :: nat]], [[30, 31], [32, 33 :: nat]])
        = Inr mbs"
    and m: "mset (concat (map (\<lambda>(t, a, g). zip t (zip a g)) mbs))
        = mset (zip (concat [[10, 11], [12, 13 :: nat]])
            (zip (concat [[20, 21], [22, 23 :: nat]]) (concat [[30, 31], [32, 33 :: nat]])))"
    by blast
  from r run have "mbs = [([12, 10], [22, 20], [32, 30]), ([13, 11], [23, 21], [33, 31])]"
    by simp
  with m have "mset (zip [12, 10, 13, 11] (zip [22, 20, 23, 21] [32, 30, 33, 31 :: nat]))
      = mset (zip [10, 11, 12, 13 :: nat] (zip [20, 21, 22, 23 :: nat] [30, 31, 32, 33]))"
    by simp
  with p run show ?thesis by simp
qed

lemma update_epoch_assert:
  "MINIBATCH_SIZE cfg * NUM_MINIBATCHES cfg \<noteq> NUM_STEPS cfg * NUM_ACTORS cfg
     \<Longrightarrow> update_epoch cfg eng net update_state = Inl AssertionError"
  by (simp add: update_epoch_def Let_def split: prod.splits)

lemma update_epoch_carries:
  assumes "update_epoch cfg eng net (train_state, traj_batch, advantages, targets, rng)
             = Inr ((train_state', traj_batch', advantages', targets', rng'), total_loss)"
  shows "traj_batch' = traj_batch \<and> advantages' = advantages \<and> targets' = targets"
  using assms
  by (auto simp: update_epoch_def Let_def bind_result_def
           split: prod.splits if_splits sum.splits)

lemma scan_rounds_carries:
  assumes "scan_rounds (update_epoch cfg eng net) (train_state, traj_batch, advantages, targets, rng) n
             = Inr ((train_state', traj_batch', advantages', targets', rng'), losses)"
  shows "traj_batch' = traj_batch \<and> advantages' = advantages \<and> targets' = targets"
  using assms
proof (induction n arbitrary: train_state rng losses)
  case 0
  then show ?case by simp
next
  case (Suc n)
  from Suc.prems obtain ts1 tb1 ad1 tg1 rng1 l1 where
    first: "update_epoch cfg eng net (train_state, traj_batch, advantages, targets, rng)
              = Inr ((ts1, tb1, ad1, tg1, rng1), l1)"
    by (cases "update_epoch cfg eng net (train_state, traj_batch, advantages, targets, rng)")
       (auto simp: bind_result_def)
  from update_epoch_carries [OF first] have same: "tb1 = traj_batch" "ad1 = advantages" "tg1 = targets"
    by simp_all
  from Suc.prems first obtain ls where
    "scan_rounds (update_epoch cfg eng net) (ts1, traj_batch, advantages, targets, rng1) n
       = Inr ((train_state', traj_batch', advantages', targets', rng'), ls)"
    by (cases "scan_rounds (update_epoch cfg eng net) (ts1, tb1, ad1, tg1, rng1) n")
       (auto simp: bind_result_def same)
  then show ?case by (rule Suc.IH)
qed

lemma scan_rounds_numeral:
  "scan_rounds f init (numeral k) =
     bind_result (f init) (\<lambda>(carry, y).
     bind_result (scan_rounds f carry (pred_numeral k)) (\<lambda>(final, ys). Inr (final, y # ys)))"
  by (simp add: numeral_eq_Suc)

lemma step_update_minbatch:
  "step (fst (update_minbatch cfg eng net train_state batch_info)) = Suc (step train_state)"
  by (simp add: update_minbatch_def apply_gradients_def Let_def split: prod.splits)

text \<open>
  One epoch on the small instance: whatever the training state and the key, the epoch
  succeeds, takes two gradient steps and doubles the key.
\<close>

lemma example_update_epoch:
  "\<exists>train_state' total_loss.
     update_epoch example_config example_engine example_network
       (train_state, example_traj_batch, example_advantages, example_targets, rng)
     = Inr ((train_state', example_traj_batch, example_advantages, example_targets, 2 * rng),
            total_loss)
     \<and> step train_state' = step train_state + 2"
  by (simp add: update_epoch_def shuffle_minibatches_def tree_map3_def reshape_merge_def
      jnp_take_def split_minibatches_def bind_result_def example_config_def example_engine_def
      example_traj_batch_def example_advantages_def example_targets_def chunks_numeral
      split_beta upt_rec step_update_minbatch)

text \<open>
  C3. Whenever \<open>MINIBATCH_SIZE * NUM_MINIBATCHES\<close> differs from
  \<open>NUM_STEPS * NUM_ACTORS\<close>, an update epoch ends in the assertion failure, whatever the
  engine, the network and the update state; so does the update phase, whatever the
  number of epochs. The failure carries no training state: no gradient step was applied.
\<close>

theorem update_epoch_rejects_mismatch:
  assumes "MINIBATCH_SIZE cfg * NUM_MINIBATCHES cfg \<noteq> NUM_STEPS cfg * NUM_ACTORS cfg"
  shows "update_epoch cfg eng net update_state = Inl AssertionError
       \<and> update_epochs cfg eng net update_state = Inl AssertionError"
proof
  show first: "update_epoch cfg eng net update_state = Inl AssertionError"
    using assms by (rule update_epoch_assert)
  then show "update_epochs cfg eng net update_state = Inl AssertionError"
    by (simp add: update_epochs_def bind_result_def)
qed

theorem update_epoch_rejects_mismatch_witness:
  "make_train (example_config\<lparr>NUM_STEPS := 5, NUM_MINIBATCHES := 4\<rparr>) 2
     = Inr (example_config\<lparr>NUM_STEPS := 5, NUM_MINIBATCHES := 4, NUM_UPDATES := 1\<rparr>)
   \<and> update_epoch (example_config\<lparr>NUM_STEPS := 5, NUM_MINIBATCHES := 4, NUM_UPDATES := 1\<rparr>)
       example_engine example_network
       (example_train_state, example_traj_batch, example_advantages, example_targets, 5)
     = Inl AssertionError
   \<and> update_epochs (example_config\<lparr>NUM_STEPS := 5, NUM_MINIBATCHES := 4, NUM_UPDATES := 1\<rparr>)
       example_engine example_network
       (example_train_state, example_traj_batch, example_advantages, example_targets, 5)
     = Inl AssertionError"
proof -
  let ?cfg = "example_config\<lparr>NUM_STEPS := 5, NUM_MINIBATCHES := 4, NUM_UPDATES := 1\<rparr>"
  have mk: "make_train (example_config\<lparr>NUM_STEPS := 5, NUM_MINIBATCHES := 4\<rparr>) 2 = Inr ?cfg"
    by (simp add: make_train_def example_config_def)
  have mismatch: "MINIBATCH_SIZE ?cfg * NUM_MINIBATCHES ?cfg \<noteq> NUM_STEPS ?cfg * NUM_ACTORS ?cfg"
    by (simp add: example_config_def)
  from update_epoch_rejects_mismatch [OF mismatch, of example_engine example_network
      "(example_train_state, example_traj_batch, example_advantages, example_targets, 5)"]
    mk
  show ?thesis by blast
qed

text \<open>
  C10. An epoch that succeeds returns the trajectory batch, the advantages and the
  targets it was given; and so does every number of successive epochs, in particular the
  \<open>UPDATE_EPOCHS\<close> epochs of one update iteration. Of the carried update state only the
  training state and the pseudo-random key can differ.
\<close>

theorem update_epochs_frame:
  "(update_epoch cfg eng net (train_state, traj_batch, advantages, targets, rng)
      = Inr ((train_state1, traj_batch1, advantages1, targets1, rng1), total_loss)
     \<longrightarrow> traj_batch1 = traj_batch \<and> advantages1 = advantages \<and> targets1 = targets)
   \<and> (scan_rounds (update_epoch cfg eng net) (train_state, traj_batch, advantages, targets, rng) n
      = Inr ((train_state2, traj_batch2, advantages2, targets2, rng2), losses)
     \<longrightarrow> traj_batch2 = traj_batch \<and> advantages2 = advantages \<and> targets2 = targets)
   \<and> (update_epochs cfg eng net (train_state, traj_batch, advantages, targets, rng)
      = Inr ((train_state3, traj_batch3, advantages3, targets3, rng3), loss_info)
     \<longrightarrow> traj_batch3 = traj_batch \<and> advantages3 = advantages \<and> targets3 = targets)"
proof (intro conjI impI)
  assume "update_epoch cfg eng net (train_state, traj_batch, advantages, targets, rng)
      = Inr ((train_state1, traj_batch1, advantages1, targets1, rng1), total_loss)"
  from update_epoch_carries [OF this]
  show "traj_batch1 = traj_batch" "advantages1 = advantages" "targets1 = targets"
    by simp_all
next
  assume "scan_rounds (update_epoch cfg eng net) (train_state, traj_batch, advantages, targets, rng) n
      = Inr ((train_state2, traj_batch2, advantages2, targets2, rng2), losses)"
  from scan_rounds_carries [OF this]
  show "traj_batch2 = traj_batch" "advantages2 = advantages" "targets2 = targets"
    by simp_all
next
  assume "update_epochs cfg eng net (train_state, traj_batch, advantages, targets, rng)
      = Inr ((train_state3, traj_batch3, advantages3, targets3, rng3), loss_info)"
  then have "scan_rounds (update_epoch cfg eng net)
      (train_state, traj_batch, advantages, targets, rng) (nat (UPDATE_EPOCHS cfg))
      = Inr ((train_state3, traj_batch3, advantages3, targets3, rng3), loss_info)"
    by (simp add: update_epochs_def bind_result_def split: sum.splits)
  from scan_rounds_carries [OF this]
  show "traj_batch3 = traj_batch" "advantages3 = advantages" "targets3 = targets"
    by simp_all
qed

theorem update_epochs_frame_witness:
  "\<exists>train_state' loss_info.
     update_epochs example_config example_engine example_network
       (example_train_state, example_traj_batch, example_advantages, example_targets, 5)
     = Inr ((train_state', example_traj_batch, example_advantages, example_targets, 20), loss_info)
     \<and> step train_state' = 4"
proof -
  obtain ts1 l1 where
    e1: "update_epoch example_config example_engine example_network
           (example_train_state, example_traj_batch, example_advantages, example_targets, 5)
         = Inr ((ts1, example_traj_batch, example_advantages, example_targets, 10), l1)"
    and s1: "step ts1 = 2"
    using example_update_epoch [of example_train_state 5]
    by (auto simp: example_train_state_def)
  obtain ts2 l2 where
    e2: "update_epoch example_config example_engine example_network
           (ts1, example_traj_batch, example_advantages, example_targets, 10)
         = Inr ((ts2, example_traj_batch, example_advantages, example_targets, 20), l2)"
    and s2: "step ts2 = 4"
    using example_update_epoch [of ts1 10] s1 by auto
  have run: "update_epochs example_config example_engine example_network
       (example_train_state, example_traj_batch, example_advantages, example_targets, 5)
     = Inr ((ts2, example_traj_batch, example_advantages, example_targets, 20), [l1, l2])"
  proof -
    have "nat (UPDATE_EPOCHS example_config) = 2" by (simp add: example_config_def)
    then show ?thesis
      by (simp add: update_epochs_def scan_rounds_numeral e1 e2 bind_result_def)
  qed
  from update_epochs_frame [of example_config example_engine example_network example_train_state
      example_traj_batch example_advantages example_targets 5 _ _ _ _ _ _ _ _ _ _ _ _ _
      ts2 example_traj_batch example_advantages example_targets 20 "[l1, l2]"]
    run s2
  show ?thesis by blast
qed

end
